theory Spec2Isabelle
  imports Complex_Main
begin

section \<open>GEMM kernel generator and profiler for CUTLASS (gen\_gemm.py)\<close>

subsection \<open>Data model\<close>

text \<open>
  Exceptions of the Python source are values. \<open>AssertionError\<close> is a failed
  \<^verbatim>\<open>assert\<close>, \<open>KeyError\<close> a missing dictionary key, \<open>ValueError\<close> what
  \<^verbatim>\<open>int\<close> and \<^verbatim>\<open>min\<close> raise, \<open>ExternalError\<close> whatever a
  catalog generator of \<^verbatim>\<open>gen_tensor_op\<close> raises.
\<close>

datatype error = AssertionError | KeyError | ValueError | ZeroDivisionError | ExternalError string

text \<open>
  The enumerations of \<^verbatim>\<open>library\<close>. The members the source names are
  constructors; the last constructor of each stands for the members it does not name.
\<close>

datatype DataType = DataType string

datatype LayoutType = RowMajor | ColumnMajor | OtherLayout string

datatype EpilogueFunctor = LinearCombination | OtherEpilogue string

datatype SwizzlingFunctor = Identity8 | Batched | OtherSwizzle string

text \<open>
  A tile description: the source reads \<^verbatim>\<open>minimum_compute_capability\<close> and
  passes the rest on untouched.
\<close>

record TileDescription =
  minimum_compute_capability :: int
  tile_shape :: string

text \<open>\<^verbatim>\<open>TensorDescription(element, layout, alignment)\<close>.\<close>

record TensorDescription =
  element :: DataType
  layout :: LayoutType
  td_alignment :: int

text \<open>
  \<^verbatim>\<open>GemmOperation(arch, tile_description, A, B, C, element_epilogue,
  epilogue_functor, swizzling_functor)\<close>: the eight constructor arguments, in order.
\<close>

record GemmOperation =
  arch :: int
  gemm_tile :: TileDescription
  operand_A :: TensorDescription
  operand_B :: TensorDescription
  operand_C :: TensorDescription
  element_epilogue :: DataType
  epilogue_functor :: EpilogueFunctor
  swizzling_functor :: SwizzlingFunctor

text \<open>
  The measured runtime of a candidate: a number, or \<^verbatim>\<open>float("inf")\<close>. The
  source only compares runtimes, so a finite float is the rational it denotes.
\<close>

datatype runtime_value = Finite rat | Infinite

fun rt_less :: "runtime_value \<Rightarrow> runtime_value \<Rightarrow> bool" where
  "rt_less (Finite a) (Finite b) = (a < b)"
| "rt_less (Finite a) Infinite = True"
| "rt_less Infinite b = False"

type_synonym data_type = "DataType \<times> DataType \<times> DataType \<times> DataType"

text \<open>
  The dictionary of one candidate kernel. The keys \<^verbatim>\<open>"runtime"\<close> and
  \<^verbatim>\<open>"opdef"\<close> are absent until \<^verbatim>\<open>select_op\<close> and
  \<^verbatim>\<open>get_default\<close> add them.
\<close>

record kernel =
  src :: string
  op :: GemmOperation
  name :: string
  tile_description :: TileDescription
  alignment :: int
  data_type :: data_type
  swizzle_functor :: SwizzlingFunctor
  runtime :: "runtime_value option"
  opdef :: "string option"

type_synonym op_creator =
  "TileDescription list \<Rightarrow> data_type \<Rightarrow> int list \<Rightarrow> SwizzlingFunctor \<Rightarrow> kernel list"

text \<open>
  The modules the source imports and this development does not have
  (\<^verbatim>\<open>gemm_operation\<close>, \<^verbatim>\<open>gemm_profiler\<close>, \<^verbatim>\<open>gen_tensor_op\<close>,
  \<^verbatim>\<open>library\<close>) are parameters: the naming and emitting functions, the tables
  \<^verbatim>\<open>DataTypeTag\<close>, \<^verbatim>\<open>EPILOGUE_MAP\<close> and \<^verbatim>\<open>GENERATOR_FUNC_TABLE\<close>.
  \<open>emit\<close> takes \<^verbatim>\<open>no_beta_scaling\<close> as an option: \<open>None\<close> when the call
  leaves the keyword out. A generator receives the output type and the operator creator,
  which it calls with or without the fourth argument (then \<open>Identity8\<close>, the default
  of line 75), and returns the catalog or raises.
\<close>

record library =
  procedural_name :: "GemmOperation \<Rightarrow> string"
  leading_dim :: "GemmOperation \<Rightarrow> string"
  emit :: "GemmOperation \<Rightarrow> bool option \<Rightarrow> bool \<Rightarrow> string"
  profiler_emit :: "string \<Rightarrow> string \<Rightarrow> string \<Rightarrow> string \<Rightarrow> string \<Rightarrow> string \<Rightarrow> string"
  DataTypeTag :: "DataType \<Rightarrow> string"
  EPILOGUE_MAP :: "string \<rightharpoonup> EpilogueFunctor \<times> bool"
  GENERATOR_FUNC_TABLE :: "int \<rightharpoonup> (string \<Rightarrow> op_creator \<Rightarrow> error + kernel list)"

subsection \<open>Operator instantiation\<close>

text \<open>
  Lines 44 to 64: the operation that \<^verbatim>\<open>create_gemm_operator_with_epilogue\<close>
  builds, with the \<^verbatim>\<open>no_beta_scaling\<close> flag of the epilogue table.
\<close>

definition gemm_operation_with_epilogue ::
  "library \<Rightarrow> string \<Rightarrow> TileDescription \<Rightarrow> data_type \<Rightarrow> int \<Rightarrow> SwizzlingFunctor \<Rightarrow> bool
    \<Rightarrow> error + (GemmOperation \<times> bool)" where
  "gemm_operation_with_epilogue lib op_type tile dtypes algn swz batched =
    (case dtypes of (element_a, element_b, element_c, element_epi) \<Rightarrow>
      let A = \<lparr>element = element_a, layout = RowMajor, td_alignment = algn\<rparr>;
          B = \<lparr>element = element_b, layout = ColumnMajor, td_alignment = algn\<rparr>;
          C = \<lparr>element = element_c, layout = RowMajor, td_alignment = algn\<rparr>;
          swz' = (if batched then Batched else swz)
      in case EPILOGUE_MAP lib op_type of
           None \<Rightarrow> Inl KeyError
         | Some (epilogue, no_beta_scaling) \<Rightarrow>
             Inr (\<lparr>arch = minimum_compute_capability tile,
                   gemm_tile = tile,
                   operand_A = A, operand_B = B, operand_C = C,
                   element_epilogue = element_epi,
                   epilogue_functor = epilogue,
                   swizzling_functor = swz'\<rparr>, no_beta_scaling))"

text \<open>Lines 66 to 68: the name and the emitted source of that operation.\<close>

definition create_gemm_operator_with_epilogue ::
  "library \<Rightarrow> string \<Rightarrow> TileDescription \<Rightarrow> data_type \<Rightarrow> int \<Rightarrow> SwizzlingFunctor \<Rightarrow> bool
    \<Rightarrow> error + (string \<times> string)" where
  "create_gemm_operator_with_epilogue lib op_type tile dtypes algn swz batched =
    (case gemm_operation_with_epilogue lib op_type tile dtypes algn swz batched of
       Inl e \<Rightarrow> Inl e
     | Inr (gemm, no_beta_scaling) \<Rightarrow>
         Inr (procedural_name lib gemm, emit lib gemm (Some no_beta_scaling) batched))"

subsection \<open>Catalog enumeration\<close>

text \<open>The body of the inner loop, lines 86 to 120: the candidate of one pair.\<close>

definition gemm_candidate ::
  "library \<Rightarrow> data_type \<Rightarrow> SwizzlingFunctor \<Rightarrow> TileDescription \<Rightarrow> int \<Rightarrow> kernel" where
  "gemm_candidate lib dtypes swz tile algn =
    (case dtypes of (element_a, element_b, element_c, element_epi) \<Rightarrow>
      let A = \<lparr>element = element_a, layout = RowMajor, td_alignment = algn\<rparr>;
          B = \<lparr>element = element_b, layout = ColumnMajor, td_alignment = algn\<rparr>;
          C = \<lparr>element = element_c, layout = RowMajor, td_alignment = algn\<rparr>;
          gemm = \<lparr>arch = minimum_compute_capability tile,
                   gemm_tile = tile,
                   operand_A = A, operand_B = B, operand_C = C,
                   element_epilogue = element_epi,
                   epilogue_functor = LinearCombination,
                   swizzling_functor = swz\<rparr>;
          text = profiler_emit lib (procedural_name lib gemm) (emit lib gemm None False)
                   (DataTypeTag lib element_a) (DataTypeTag lib element_b)
                   (DataTypeTag lib element_c) (leading_dim lib gemm)
      in \<lparr>src = text, op = gemm, name = procedural_name lib gemm,
          tile_description = tile, alignment = algn,
          data_type = dtypes, swizzle_functor = swz,
          runtime = None, opdef = None\<rparr>)"

text \<open>The two nested loops of lines 84 and 85, appending to \<^verbatim>\<open>ret\<close>.\<close>

fun enumerate_alignments ::
  "library \<Rightarrow> data_type \<Rightarrow> SwizzlingFunctor \<Rightarrow> TileDescription \<Rightarrow> int list \<Rightarrow> kernel list
    \<Rightarrow> kernel list" where
  "enumerate_alignments lib dtypes swz tile [] ret = ret"
| "enumerate_alignments lib dtypes swz tile (algn # alignment_constraints) ret =
    enumerate_alignments lib dtypes swz tile alignment_constraints
      (ret @ [gemm_candidate lib dtypes swz tile algn])"

fun enumerate_tiles ::
  "library \<Rightarrow> data_type \<Rightarrow> SwizzlingFunctor \<Rightarrow> int list \<Rightarrow> TileDescription list \<Rightarrow> kernel list
    \<Rightarrow> kernel list" where
  "enumerate_tiles lib dtypes swz alignment_constraints [] ret = ret"
| "enumerate_tiles lib dtypes swz alignment_constraints (tile # tile_descriptions) ret =
    enumerate_tiles lib dtypes swz alignment_constraints tile_descriptions
      (enumerate_alignments lib dtypes swz tile alignment_constraints ret)"

definition enumerate_gemm_operators :: "library \<Rightarrow> op_creator" where
  "enumerate_gemm_operators lib tile_descriptions dtypes alignment_constraints swz =
    enumerate_tiles lib dtypes swz alignment_constraints tile_descriptions []"

subsection \<open>The default kernels\<close>

definition DEFAULT_KERNELS :: "int \<rightharpoonup> (string \<rightharpoonup> string)" where
  "DEFAULT_KERNELS =
    [75 \<mapsto> [''float16'' \<mapsto> ''cutlass_tensorop_h1688gemm_128x64_32x2_tn_align1'',
             ''float32'' \<mapsto> ''cutlass_tensorop_s1688gemm_f16_64x64_32x2_tn_align1''],
     80 \<mapsto> [''float16'' \<mapsto> ''cutlass_tensorop_h1688gemm_128x64_32x2_tn_align1'',
             ''float32'' \<mapsto> ''cutlass_tensorop_s1688gemm_f16_64x64_32x2_tn_align1'']]"

subsection \<open>The feasibility filter\<close>

text \<open>
  The character class of the pattern \<^verbatim>\<open>align[1|2|4|8]\<close> of line 150: between
  brackets \<^verbatim>\<open>|\<close> is a character like the others, so the class holds
  \<^verbatim>\<open>1\<close>, \<^verbatim>\<open>|\<close>, \<^verbatim>\<open>2\<close>, \<^verbatim>\<open>4\<close> and \<^verbatim>\<open>8\<close>.
\<close>

definition align_class :: "char \<Rightarrow> bool" where
  "align_class c \<longleftrightarrow> c \<in> set ''1|2|4|8''"

text \<open>
  \<^verbatim>\<open>re.findall\<close> for that pattern: scan from the left, take a match where
  one starts and go on behind it, else move one character on.
\<close>

fun findall_align :: "string \<Rightarrow> string list" where
  "findall_align [] = []"
| "findall_align (c # cs) =
    (if take 5 (c # cs) = ''align'' \<and> 5 < length (c # cs) \<and> align_class ((c # cs) ! 5)
     then take 6 (c # cs) # findall_align (drop 5 cs)
     else findall_align cs)"

text \<open>\<^verbatim>\<open>int\<close> of a one-character string: a decimal digit, or \<open>ValueError\<close>.\<close>

definition int_of_char :: "char \<Rightarrow> error + int" where
  "int_of_char c =
    (if 48 \<le> (of_char c :: nat) \<and> (of_char c :: nat) \<le> 57
     then Inr (int (of_char c) - 48) else Inl ValueError)"

definition check_align :: "string \<Rightarrow> int \<Rightarrow> int \<Rightarrow> int \<Rightarrow> error + bool" where
  "check_align op_name M N K =
    (let aligns = findall_align op_name in
     if length aligns \<noteq> 1 then Inl AssertionError
     else case int_of_char (last (hd aligns)) of
            Inl e \<Rightarrow> Inl e
          | Inr align \<Rightarrow>
              if align = 0 then Inl ZeroDivisionError
              else Inr (list_all (\<lambda>dim. dim mod align = 0) [M, N, K]))"

text \<open>
  Line 192: \<^verbatim>\<open>list(filter(...))\<close> calls \<^verbatim>\<open>check_align\<close> on the candidates in
  order; the first call that raises ends the filter.
\<close>

fun filter_align :: "kernel list \<Rightarrow> int \<Rightarrow> int \<Rightarrow> int \<Rightarrow> error + kernel list" where
  "filter_align [] M N K = Inr []"
| "filter_align (cand # ops) M N K =
    (case check_align (name cand) M N K of
       Inl e \<Rightarrow> Inl e
     | Inr ok \<Rightarrow>
         (case filter_align ops M N K of
            Inl e \<Rightarrow> Inl e
          | Inr rest \<Rightarrow> Inr (if ok then cand # rest else rest)))"

subsection \<open>The profiler\<close>

text \<open>
  \<^verbatim>\<open>ProfilerEngine\<close> (module \<^verbatim>\<open>gen_tensor_op\<close>) compiles and runs the
  candidates outside of this program. Its two methods are parameters that take the
  state of the engine and return the new one; \<^verbatim>\<open>evaluate\<close> returns the measured
  runtime or the infinite sentinel.
\<close>

record 'e ProfilerEngine =
  compile_all :: "'e \<Rightarrow> kernel list \<Rightarrow> bool \<Rightarrow> 'e"
  evaluate :: "'e \<Rightarrow> kernel \<Rightarrow> int list \<Rightarrow> runtime_value \<times> 'e"

record 'e CutlassGemmProfiler =
  engine :: 'e
  sm :: int
  cache :: "int \<times> int \<times> int \<rightharpoonup> kernel"

text \<open>Lines 142 to 146; \<open>e0\<close> is the engine that \<^verbatim>\<open>ProfilerEngine(...)\<close> returns.\<close>

definition init :: "library \<Rightarrow> int \<Rightarrow> 'e \<Rightarrow> error + 'e CutlassGemmProfiler" where
  "init lib arch_sm e0 =
    (if arch_sm \<in> dom (GENERATOR_FUNC_TABLE lib) \<and> arch_sm \<in> dom DEFAULT_KERNELS
     then Inr \<lparr>engine = e0, sm = arch_sm, cache = Map.empty\<rparr>
     else Inl AssertionError)"

text \<open>Lines 163 to 177.\<close>

definition get_default ::
  "library \<Rightarrow> 'e CutlassGemmProfiler \<Rightarrow> string \<Rightarrow> string \<Rightarrow> bool \<Rightarrow> error + kernel" where
  "get_default lib self op_type out_dtype batched =
    (case GENERATOR_FUNC_TABLE lib (sm self) of
       None \<Rightarrow> Inl KeyError
     | Some generator \<Rightarrow>
    (case generator out_dtype (enumerate_gemm_operators lib) of
       Inl e \<Rightarrow> Inl e
     | Inr ops \<Rightarrow>
    (case DEFAULT_KERNELS (sm self) of
       None \<Rightarrow> Inl KeyError
     | Some by_dtype \<Rightarrow>
    (case by_dtype out_dtype of
       None \<Rightarrow> Inl KeyError
     | Some default_kernel_name \<Rightarrow>
        let filtered = filter (\<lambda>cand. name cand = default_kernel_name) ops in
        if length filtered \<noteq> 1 then Inl AssertionError
        else
          let cand = hd filtered in
          (case create_gemm_operator_with_epilogue lib op_type (tile_description cand)
                  (data_type cand) (alignment cand) (swizzle_functor cand) batched of
             Inl e \<Rightarrow> Inl e
           | Inr (new_name, new_opdef) \<Rightarrow>
               Inr (cand\<lparr>name := new_name, opdef := Some new_opdef\<rparr>))))))"

text \<open>
  The loop of lines 197 to 202. The result is the candidate of the early return, if the
  loop returned, the list with the runtimes written so far, and the engine.
\<close>

fun evaluate_loop ::
  "'e ProfilerEngine \<Rightarrow> bool \<Rightarrow> int list \<Rightarrow> 'e \<Rightarrow> kernel list
    \<Rightarrow> kernel option \<times> kernel list \<times> 'e" where
  "evaluate_loop api profile_all shape e [] = (None, [], e)"
| "evaluate_loop api profile_all shape e (cand # ops) =
    (case evaluate api e cand shape of
       (out, e1) \<Rightarrow>
         let cand' = cand\<lparr>runtime := Some out\<rparr> in
         if rt_less out Infinite \<and> \<not> profile_all then (Some cand', cand' # ops, e1)
         else
           (case evaluate_loop api profile_all shape e1 ops of
              (winner, ops', e2) \<Rightarrow> (winner, cand' # ops', e2)))"

text \<open>
  \<^verbatim>\<open>min(ops, key=lambda i: i["runtime"])\<close>: the scan keeps the best candidate so
  far and replaces it only by one whose key is strictly less; the empty list is a
  \<open>ValueError\<close>, a candidate without the key a \<open>KeyError\<close>.
\<close>

fun min_from :: "kernel \<Rightarrow> runtime_value \<Rightarrow> kernel list \<Rightarrow> error + kernel" where
  "min_from best best_key [] = Inr best"
| "min_from best best_key (cand # ops) =
    (case runtime cand of
       None \<Rightarrow> Inl KeyError
     | Some k \<Rightarrow>
         if rt_less k best_key then min_from cand k ops else min_from best best_key ops)"

definition min_runtime :: "kernel list \<Rightarrow> error + kernel" where
  "min_runtime ops =
    (case ops of
       [] \<Rightarrow> Inl ValueError
     | cand # rest \<Rightarrow>
         (case runtime cand of
            None \<Rightarrow> Inl KeyError
          | Some k \<Rightarrow> min_from cand k rest))"

text \<open>
  Lines 184 to 206. The profiler is returned with the result, also when the call
  raises: the engine has then done what it did, and the cache is as it was.
\<close>

definition select_op ::
  "library \<Rightarrow> 'e ProfilerEngine \<Rightarrow> 'e CutlassGemmProfiler \<Rightarrow> int \<Rightarrow> int \<Rightarrow> int \<Rightarrow> string
    \<Rightarrow> bool \<Rightarrow> bool \<Rightarrow> (error + kernel) \<times> 'e CutlassGemmProfiler" where
  "select_op lib api self M N K out_dtype profile_all use_multiprocessing =
    (case cache self (M, N, K) of
       Some cand \<Rightarrow> (Inr cand, self)
     | None \<Rightarrow>
    (case GENERATOR_FUNC_TABLE lib (sm self) of
       None \<Rightarrow> (Inl KeyError, self)
     | Some generator \<Rightarrow>
    (case generator out_dtype (enumerate_gemm_operators lib) of
       Inl e \<Rightarrow> (Inl e, self)
     | Inr ops0 \<Rightarrow>
    (case filter_align ops0 M N K of
       Inl e \<Rightarrow> (Inl e, self)
     | Inr ops \<Rightarrow>
        let e1 = (if profile_all then compile_all api (engine self) ops use_multiprocessing
                  else engine self)
        in
        (case evaluate_loop api profile_all [M, N, K] e1 ops of
           (Some cand, ops', e2) \<Rightarrow>
             (Inr cand, self\<lparr>engine := e2, cache := (cache self)((M, N, K) \<mapsto> cand)\<rparr>)
         | (None, ops', e2) \<Rightarrow>
             (case min_runtime ops' of
                Inl e \<Rightarrow> (Inl e, self\<lparr>engine := e2\<rparr>)
              | Inr cand \<Rightarrow>
                  (Inr cand,
                   self\<lparr>engine := e2, cache := (cache self)((M, N, K) \<mapsto> cand)\<rparr>)))))))"

text \<open>Lines 223 to 236.\<close>

definition profile ::
  "library \<Rightarrow> 'e ProfilerEngine \<Rightarrow> 'e CutlassGemmProfiler \<Rightarrow> string \<Rightarrow> int \<Rightarrow> int \<Rightarrow> int
    \<Rightarrow> string \<Rightarrow> bool \<Rightarrow> bool \<Rightarrow> bool
    \<Rightarrow> (error + string \<times> string \<times> runtime_value) \<times> 'e CutlassGemmProfiler" where
  "profile lib api self op_type M N K out_dtype profile_all use_multiprocessing batched =
    (case select_op lib api self M N K out_dtype profile_all use_multiprocessing of
       (Inl e, self') \<Rightarrow> (Inl e, self')
     | (Inr cand, self') \<Rightarrow>
         (case create_gemm_operator_with_epilogue lib op_type (tile_description cand)
                 (data_type cand) (alignment cand) (swizzle_functor cand) batched of
            Inl e \<Rightarrow> (Inl e, self')
          | Inr (new_name, new_opdef) \<Rightarrow>
              (case runtime cand of
                 None \<Rightarrow> (Inl KeyError, self')
               | Some rt \<Rightarrow> (Inr (new_name, new_opdef, rt), self'))))"

subsection \<open>Notions of the specification\<close>

text \<open>
  The runtimes of the candidates of a list: what the engine answers when it evaluates
  them one after the other, and the engine after that.
\<close>

fun evaluate_all ::
  "'e ProfilerEngine \<Rightarrow> int list \<Rightarrow> 'e \<Rightarrow> kernel list \<Rightarrow> runtime_value list \<times> 'e" where
  "evaluate_all api shape e [] = ([], e)"
| "evaluate_all api shape e (cand # ops) =
    (case evaluate api e cand shape of
       (out, e1) \<Rightarrow>
         (case evaluate_all api shape e1 ops of (outs, e2) \<Rightarrow> (out # outs, e2)))"

text \<open>
  The alignment tokens in the words of the specification: \<^verbatim>\<open>align\<close> followed by
  one of the alignments 1, 2, 4 and 8. The list holds the alignment of each token, from
  left to right. It is the reading that \<^const>\<open>findall_align\<close> is compared with.
\<close>

definition spec_alignment_digit :: "char \<Rightarrow> bool" where
  "spec_alignment_digit c \<longleftrightarrow> c \<in> set ''1248''"

fun spec_alignment_tokens :: "string \<Rightarrow> int list" where
  "spec_alignment_tokens [] = []"
| "spec_alignment_tokens (c # cs) =
    (if take 5 (c # cs) = ''align'' \<and> 5 < length (c # cs) \<and> spec_alignment_digit ((c # cs) ! 5)
     then (int (of_char ((c # cs) ! 5)) - 48) # spec_alignment_tokens (drop 5 cs)
     else spec_alignment_tokens cs)"

text \<open>
  The feasibility filter in the words of the specification: an internal-consistency
  error unless the name carries exactly one token, else whether the alignment of the
  token divides the three dimensions.
\<close>

definition spec_is_feasible :: "string \<Rightarrow> int \<Rightarrow> int \<Rightarrow> int \<Rightarrow> error + bool" where
  "spec_is_feasible op_name M N K =
    (case spec_alignment_tokens op_name of
       [a] \<Rightarrow> Inr (a dvd M \<and> a dvd N \<and> a dvd K)
     | _ \<Rightarrow> Inl AssertionError)"

text \<open>
  Modelled from the spec: \<^verbatim>\<open>GemmOperation.procedural_name\<close> of the module
  \<^verbatim>\<open>gemm_operation\<close>, which is not among the sources. The specification has
  the canonical name of a candidate stay what it is when the candidate is instantiated
  again with another epilogue, and with the batched swizzle: the name of an operation
  depends neither on its epilogue functor nor on its swizzling functor.
\<close>

definition name_ignores_epilogue :: "library \<Rightarrow> bool" where
  "name_ignores_epilogue lib \<longleftrightarrow>
     (\<forall>gemm epilogue swz.
        procedural_name lib (gemm\<lparr>epilogue_functor := epilogue, swizzling_functor := swz\<rparr>)
          = procedural_name lib gemm)"

text \<open>
  Modelled from the spec: the generators of \<^verbatim>\<open>GENERATOR_FUNC_TABLE\<close> (module
  \<^verbatim>\<open>gen_tensor_op\<close>, which is not among the sources). The catalog of an
  architecture and an output type is made of candidates that the operator creator
  built, and within it a candidate is identified by its canonical name.
\<close>

definition built_by_enumerator :: "library \<Rightarrow> kernel \<Rightarrow> bool" where
  "built_by_enumerator lib cand \<longleftrightarrow>
     cand = gemm_candidate lib (data_type cand) (swizzle_functor cand)
              (tile_description cand) (alignment cand)"

definition enumerated_catalog :: "library \<Rightarrow> kernel list \<Rightarrow> bool" where
  "enumerated_catalog lib ops \<longleftrightarrow>
     list_all (built_by_enumerator lib) ops \<and> distinct (map name ops)"

subsection \<open>A small catalog and a scripted engine\<close>

text \<open>
  A library in the shape of the real one, for running the definitions: names follow the
  pattern of the default kernel table, the generator of architecture 75 enumerates one
  tile at the alignments 8 and 1.
\<close>

definition test_name :: "GemmOperation \<Rightarrow> string" where
  "test_name g =
    ''cutlass_tensorop_'' @ tile_shape (gemm_tile g) @ ''_tn_align''
      @ [char_of (48 + td_alignment (operand_A g))]"

definition test_tile :: TileDescription where
  "test_tile = \<lparr>minimum_compute_capability = 75, tile_shape = ''h1688gemm_128x64_32x2''\<rparr>"

definition test_types :: data_type where
  "test_types = (DataType ''f16'', DataType ''f16'', DataType ''f16'', DataType ''f16'')"

definition test_generator :: "TileDescription list \<Rightarrow> string \<Rightarrow> op_creator \<Rightarrow> error + kernel list" where
  "test_generator tiles out_dtype creator =
    (if out_dtype = ''float16'' then Inr (creator tiles test_types [8, 1] Identity8)
     else Inl (ExternalError ''unsupported output type''))"

definition test_library :: "TileDescription list \<Rightarrow> library" where
  "test_library tiles =
    \<lparr>procedural_name = test_name,
     leading_dim = (\<lambda>g. ''K, K, N''),
     emit = (\<lambda>g no_beta_scaling batched.
        ''gemm<'' @ test_name g @ (if batched then '', batched>'' else ''>'')),
     profiler_emit = (\<lambda>nm text ta tb tc ld. ''profile '' @ nm),
     DataTypeTag = (\<lambda>d. case d of DataType s \<Rightarrow> s),
     EPILOGUE_MAP = [''cutlass.dense'' \<mapsto> (LinearCombination, False),
                     ''cutlass.dense_bias_relu'' \<mapsto> (OtherEpilogue ''LinearCombinationRelu'', True)],
     GENERATOR_FUNC_TABLE = [75 \<mapsto> test_generator tiles]\<rparr>"

text \<open>
  An engine whose state is the log of the calls made to it; the runtime of a candidate
  is read from a table by alignment, infinite where the table has no entry.
\<close>

datatype engine_call = Compile_all "string list" bool | Evaluate string "int list"

definition test_engine :: "(int \<rightharpoonup> rat) \<Rightarrow> engine_call list ProfilerEngine" where
  "test_engine table =
    \<lparr>compile_all = (\<lambda>log ops parallel. log @ [Compile_all (map name ops) parallel]),
     evaluate = (\<lambda>log cand shape.
        ((case table (alignment cand) of None \<Rightarrow> Infinite | Some r \<Rightarrow> Finite r),
         log @ [Evaluate (name cand) shape]))\<rparr>"

definition test_profiler :: "engine_call list CutlassGemmProfiler" where
  "test_profiler = \<lparr>engine = [], sm = 75, cache = Map.empty\<rparr>"

text \<open>The candidate of the test tile at an alignment, as the enumeration builds it.\<close>

definition test_candidate :: "int \<Rightarrow> kernel" where
  "test_candidate algn = gemm_candidate (test_library [test_tile]) test_types Identity8 test_tile algn"

section \<open>Properties\<close>

subsection \<open>Catalog enumeration\<close>

lemma enumerate_alignments_append:
  "enumerate_alignments lib dtypes swz tile als ret =
     ret @ map (gemm_candidate lib dtypes swz tile) als"
  by (induction als arbitrary: ret) simp_all

lemma enumerate_tiles_append:
  "enumerate_tiles lib dtypes swz als tiles ret =
     ret @ map (\<lambda>(tile, algn). gemm_candidate lib dtypes swz tile algn) (List.product tiles als)"
  by (induction tiles arbitrary: ret) (simp_all add: enumerate_alignments_append comp_def)

lemma gemm_candidate_fields:
  "tile_description (gemm_candidate lib dtypes swz tile algn) = tile"
  "alignment (gemm_candidate lib dtypes swz tile algn) = algn"
  "swizzle_functor (gemm_candidate lib dtypes swz tile algn) = swz"
  "data_type (gemm_candidate lib dtypes swz tile algn) = dtypes"
  "epilogue_functor (op (gemm_candidate lib dtypes swz tile algn)) = LinearCombination"
  "runtime (gemm_candidate lib dtypes swz tile algn) = None"
  "name (gemm_candidate lib dtypes swz tile algn) =
     procedural_name lib (op (gemm_candidate lib dtypes swz tile algn))"
  by (simp_all add: gemm_candidate_def Let_def split: prod.splits)

text \<open>
  Claim C8. For all lists of tile descriptions and of alignments,
  \<^verbatim>\<open>enumerate_gemm_operators\<close> returns one candidate for each pair of their
  Cartesian product, in the order of the nested loops (tiles outside, alignments
  inside): the list of the (tile description, alignment) pairs of the result is the
  product itself. Every candidate is built with the epilogue
  \<open>LinearCombination\<close>.
\<close>

theorem enumerate_gemm_operators_product:
  "enumerate_gemm_operators lib tiles dtypes als swz =
     map (\<lambda>(tile, algn). gemm_candidate lib dtypes swz tile algn) (List.product tiles als)
   \<and> map (\<lambda>cand. (tile_description cand, alignment cand))
       (enumerate_gemm_operators lib tiles dtypes als swz) = List.product tiles als
   \<and> map (\<lambda>cand. epilogue_functor (op cand))
       (enumerate_gemm_operators lib tiles dtypes als swz)
       = replicate (length tiles * length als) LinearCombination"
proof -
  have e: "enumerate_gemm_operators lib tiles dtypes als swz =
     map (\<lambda>(tile, algn). gemm_candidate lib dtypes swz tile algn) (List.product tiles als)"
    by (simp add: enumerate_gemm_operators_def enumerate_tiles_append)
  have p: "map (\<lambda>cand. (tile_description cand, alignment cand))
       (map (\<lambda>(tile, algn). gemm_candidate lib dtypes swz tile algn) ps) = ps" for ps
    by (induction ps) (auto simp: gemm_candidate_fields)
  have l: "map (\<lambda>cand. epilogue_functor (op cand))
       (map (\<lambda>(tile, algn). gemm_candidate lib dtypes swz tile algn) ps)
       = replicate (length ps) LinearCombination" for ps
    by (induction ps) (auto simp: gemm_candidate_fields)
  show ?thesis using e p l by simp
qed

subsection \<open>Operator instantiation\<close>

text \<open>
  Claim C9. Whatever the configuration, the operation that
  \<^verbatim>\<open>create_gemm_operator_with_epilogue\<close> builds for an operator type of the
  epilogue table has operand A row-major, B column-major and C row-major, all three at
  the given alignment; its swizzling functor is \<open>Batched\<close> when \<open>batched\<close> is
  set, whatever the caller passed, and the caller's otherwise. The result is the name
  and the emitted source of that operation, a function of the arguments alone.
\<close>

theorem create_gemm_operator_with_epilogue_layouts:
  assumes "EPILOGUE_MAP lib op_type = Some (epilogue, no_beta_scaling)"
  shows "\<exists>gemm. gemm_operation_with_epilogue lib op_type tile (ea, eb, ec, ee) algn swz batched
             = Inr (gemm, no_beta_scaling)
     \<and> create_gemm_operator_with_epilogue lib op_type tile (ea, eb, ec, ee) algn swz batched
             = Inr (procedural_name lib gemm, emit lib gemm (Some no_beta_scaling) batched)
     \<and> operand_A gemm = \<lparr>element = ea, layout = RowMajor, td_alignment = algn\<rparr>
     \<and> operand_B gemm = \<lparr>element = eb, layout = ColumnMajor, td_alignment = algn\<rparr>
     \<and> operand_C gemm = \<lparr>element = ec, layout = RowMajor, td_alignment = algn\<rparr>
     \<and> swizzling_functor gemm = (if batched then Batched else swz)
     \<and> epilogue_functor gemm = epilogue
     \<and> gemm_tile gemm = tile \<and> element_epilogue gemm = ee"
  using assms
  by (simp add: gemm_operation_with_epilogue_def create_gemm_operator_with_epilogue_def Let_def)

theorem create_gemm_operator_with_epilogue_layouts_witness:
  "\<exists>gemm. create_gemm_operator_with_epilogue (test_library [test_tile]) ''cutlass.dense_bias_relu''
       test_tile test_types 8 Identity8 True
       = Inr (test_name gemm, emit (test_library [test_tile]) gemm (Some True) True)
     \<and> layout (operand_A gemm) = RowMajor \<and> layout (operand_B gemm) = ColumnMajor
     \<and> layout (operand_C gemm) = RowMajor \<and> swizzling_functor gemm = Batched"
  using create_gemm_operator_with_epilogue_layouts [of "test_library [test_tile]"
      "''cutlass.dense_bias_relu''" "OtherEpilogue ''LinearCombinationRelu''" True test_tile
      "DataType ''f16''" "DataType ''f16''" "DataType ''f16''" "DataType ''f16''" 8 Identity8 True]
  by (auto simp: test_library_def test_types_def)

lemma create_gemm_operator_with_epilogue_unknown:
  "EPILOGUE_MAP lib op_type = None \<Longrightarrow>
   create_gemm_operator_with_epilogue lib op_type tile dtypes algn swz batched = Inl KeyError"
  by (simp add: gemm_operation_with_epilogue_def create_gemm_operator_with_epilogue_def Let_def
      split: prod.splits)

subsection \<open>The test catalog, evaluated\<close>

lemma test_names:
  "name (gemm_candidate (test_library tiles) test_types Identity8 test_tile 8)
     = ''cutlass_tensorop_h1688gemm_128x64_32x2_tn_align8''"
  "name (gemm_candidate (test_library tiles) test_types Identity8 test_tile 1)
     = ''cutlass_tensorop_h1688gemm_128x64_32x2_tn_align1''"
  by (simp_all add: gemm_candidate_def test_library_def test_types_def test_name_def test_tile_def
      Let_def char_of_def)

lemma test_catalog:
  "GENERATOR_FUNC_TABLE (test_library tiles) 75 = Some (test_generator tiles)"
  "test_generator tiles ''float16'' (enumerate_gemm_operators (test_library tiles))
     = Inr (enumerate_gemm_operators (test_library tiles) tiles test_types [8, 1] Identity8)"
  by (simp_all add: test_library_def test_generator_def)

lemma test_enumerated:
  "enumerate_gemm_operators lib [] dtypes als swz = []"
  "enumerate_gemm_operators lib [t] dtypes [a, b] swz
     = [gemm_candidate lib dtypes swz t a, gemm_candidate lib dtypes swz t b]"
  "enumerate_gemm_operators lib [t, u] dtypes [a, b] swz
     = [gemm_candidate lib dtypes swz t a, gemm_candidate lib dtypes swz t b,
        gemm_candidate lib dtypes swz u a, gemm_candidate lib dtypes swz u b]"
  by (simp_all add: enumerate_gemm_operators_def)

lemma default_75:
  "DEFAULT_KERNELS 75 =
     Some [''float16'' \<mapsto> ''cutlass_tensorop_h1688gemm_128x64_32x2_tn_align1'',
           ''float32'' \<mapsto> ''cutlass_tensorop_s1688gemm_f16_64x64_32x2_tn_align1'']"
  by (simp add: DEFAULT_KERNELS_def)

lemma default_75_float16:
  "[''float16'' \<mapsto> ''cutlass_tensorop_h1688gemm_128x64_32x2_tn_align1'',
    ''float32'' \<mapsto> ''cutlass_tensorop_s1688gemm_f16_64x64_32x2_tn_align1''] ''float16''
     = Some ''cutlass_tensorop_h1688gemm_128x64_32x2_tn_align1''"
  by simp

lemma test_profiler_sm: "sm test_profiler = 75"
  by (simp add: test_profiler_def)

subsection \<open>The selection cache\<close>

text \<open>
  Claim C5. When the cache has an entry for (M, N, K), \<^verbatim>\<open>select_op\<close> returns
  that entry and leaves the profiler as it was, the engine included: nothing is
  compiled or evaluated. The equation holds for every library, so the generator table
  is not consulted, and for every \<open>out_dtype\<close>, \<open>profile_all\<close> and
  \<open>use_multiprocessing\<close>: the key is the shape alone.
\<close>

theorem select_op_cache_hit:
  assumes "cache self (M, N, K) = Some cand"
  shows "select_op lib api self M N K out_dtype profile_all use_multiprocessing = (Inr cand, self)"
  using assms by (simp add: select_op_def)

theorem select_op_cache_hit_witness:
  "select_op (test_library []) (test_engine Map.empty)
     (test_profiler\<lparr>cache :=
        [(8, 8, 8) \<mapsto> gemm_candidate (test_library []) test_types Identity8 test_tile 8]\<rparr>)
     8 8 8 ''float32'' False True
   = (Inr (gemm_candidate (test_library []) test_types Identity8 test_tile 8),
      test_profiler\<lparr>cache :=
        [(8, 8, 8) \<mapsto> gemm_candidate (test_library []) test_types Identity8 test_tile 8]\<rparr>)"
  using select_op_cache_hit [of "test_profiler\<lparr>cache :=
        [(8, 8, 8) \<mapsto> gemm_candidate (test_library []) test_types Identity8 test_tile 8]\<rparr>"
      8 8 8 "gemm_candidate (test_library []) test_types Identity8 test_tile 8"
      "test_library []" "test_engine Map.empty" "''float32''" False True]
  by simp

text \<open>
  A call that returns a candidate has it in the cache afterwards, so a second call for
  the shape returns the same candidate, whatever its other arguments; a call that
  raises leaves the cache as it was.
\<close>

lemma select_op_caches_result:
  assumes "select_op lib api self M N K out_dtype profile_all use_multiprocessing
             = (Inr cand, self')"
  shows "cache self' (M, N, K) = Some cand"
  using assms
  by (auto simp: select_op_def Let_def split: option.splits sum.splits prod.splits)

lemma select_op_twice:
  assumes "select_op lib api self M N K out_dtype profile_all use_multiprocessing
             = (Inr cand, self')"
  shows "select_op lib' api' self' M N K out_dtype' profile_all' use_multiprocessing'
           = (Inr cand, self')"
  using select_op_caches_result [OF assms] by (simp add: select_op_def)

lemma select_op_error_keeps_cache:
  assumes "select_op lib api self M N K out_dtype profile_all use_multiprocessing
             = (Inl e, self')"
  shows "cache self' = cache self"
  using assms
  by (auto simp: select_op_def Let_def split: option.splits sum.splits prod.splits)

subsection \<open>The default kernel\<close>

text \<open>
  Claim C10. Once the catalog is enumerated and the default table has a name for the
  architecture and the output type, \<^verbatim>\<open>get_default\<close> fails with the assertion
  of line 166 whenever the number of candidates carrying that name is not one, be it
  none or several; it returns a candidate only when exactly one carries the name.
\<close>

theorem get_default_exactly_one:
  assumes "GENERATOR_FUNC_TABLE lib (sm self) = Some generator"
    and "generator out_dtype (enumerate_gemm_operators lib) = Inr ops"
    and "DEFAULT_KERNELS (sm self) = Some by_dtype"
    and "by_dtype out_dtype = Some default_kernel_name"
  shows "(length (filter (\<lambda>cand. name cand = default_kernel_name) ops) \<noteq> 1
            \<longrightarrow> get_default lib self op_type out_dtype batched = Inl AssertionError)
       \<and> (\<forall>res. get_default lib self op_type out_dtype batched = Inr res
            \<longrightarrow> length (filter (\<lambda>cand. name cand = default_kernel_name) ops) = 1)"
  using assms
  by (auto simp: get_default_def Let_def split: sum.splits prod.splits if_splits)

theorem get_default_exactly_one_witness:
  "get_default (test_library [test_tile, test_tile]) test_profiler ''cutlass.dense'' ''float16'' False
     = Inl AssertionError
   \<and> get_default (test_library []) test_profiler ''cutlass.dense'' ''float16'' False
     = Inl AssertionError"
proof -
  have two: "length (filter (\<lambda>cand. name cand = ''cutlass_tensorop_h1688gemm_128x64_32x2_tn_align1'')
      (enumerate_gemm_operators (test_library [test_tile, test_tile]) [test_tile, test_tile]
         test_types [8, 1] Identity8)) \<noteq> 1"
    by (simp add: test_enumerated test_names)
  have none: "length (filter (\<lambda>cand. name cand = ''cutlass_tensorop_h1688gemm_128x64_32x2_tn_align1'')
      (enumerate_gemm_operators (test_library []) [] test_types [8, 1] Identity8)) \<noteq> 1"
    by (simp add: test_enumerated)
  from get_default_exactly_one [of "test_library [test_tile, test_tile]" test_profiler
      "test_generator [test_tile, test_tile]" "''float16''" _ _ _ "''cutlass.dense''" False,
      unfolded test_profiler_sm, OF test_catalog(1) test_catalog(2) default_75 default_75_float16]
    two
  have a: "get_default (test_library [test_tile, test_tile]) test_profiler ''cutlass.dense''
      ''float16'' False = Inl AssertionError" by blast
  from get_default_exactly_one [of "test_library []" test_profiler
      "test_generator []" "''float16''" _ _ _ "''cutlass.dense''" False,
      unfolded test_profiler_sm, OF test_catalog(1) test_catalog(2) default_75 default_75_float16]
    none
  have b: "get_default (test_library []) test_profiler ''cutlass.dense''
      ''float16'' False = Inl AssertionError" by blast
  show ?thesis using a b by simp
qed

subsection \<open>Runtimes, the evaluation loop and the minimum\<close>

lemma rt_less_Infinite: "rt_less r Infinite \<longleftrightarrow> r \<noteq> Infinite"
  by (cases r) simp_all

lemma rt_less_irrefl: "\<not> rt_less a a"
  by (cases a) simp_all

lemma rt_less_trans: "rt_less a b \<Longrightarrow> rt_less b c \<Longrightarrow> rt_less a c"
  by (cases a; cases b; cases c) simp_all

lemma rt_less_le_trans: "rt_less a b \<Longrightarrow> \<not> rt_less c b \<Longrightarrow> rt_less a c"
  by (cases a; cases b; cases c) simp_all

lemma filter_align_Inr:
  "filter_align ops0 M N K = Inr ops \<Longrightarrow>
   ops = filter (\<lambda>cand. check_align (name cand) M N K = Inr True) ops0"
  by (induction ops0 arbitrary: ops) (auto split: sum.splits if_splits)

lemma evaluate_all_length:
  "evaluate_all api shape e ops = (outs, e') \<Longrightarrow> length outs = length ops"
  by (induction ops arbitrary: e outs) (auto split: prod.splits)

lemma evaluate_loop_complete:
  "evaluate_all api shape e ops = (outs, e') \<Longrightarrow>
   profile_all \<or> outs = replicate (length ops) Infinite \<Longrightarrow>
   evaluate_loop api profile_all shape e ops
     = (None, map (\<lambda>(cand, out). cand\<lparr>runtime := Some out\<rparr>) (zip ops outs), e')"
proof (induction ops arbitrary: e outs e')
  case Nil
  then show ?case by simp
next
  case (Cons cand ops)
  obtain out e1 where ev: "evaluate api e cand shape = (out, e1)" by (cases "evaluate api e cand shape")
  obtain outs' e2 where ea: "evaluate_all api shape e1 ops = (outs', e2)"
    by (cases "evaluate_all api shape e1 ops")
  from Cons.prems(1) ev ea have o: "outs = out # outs'" "e' = e2" by simp_all
  from Cons.prems(2) o have p: "profile_all \<or> (out = Infinite \<and> outs' = replicate (length ops) Infinite)"
    by auto
  then have q: "profile_all \<or> outs' = replicate (length ops) Infinite" by blast
  from p have nr: "\<not> (rt_less out Infinite \<and> \<not> profile_all)" by auto
  show ?case using Cons.IH [OF ea q] ev nr o by (simp add: Let_def)
qed

lemma evaluate_loop_early:
  "i < length ops \<Longrightarrow>
   evaluate_all api shape e (take (Suc i) ops) = (replicate i Infinite @ [Finite r], e') \<Longrightarrow>
   fst (evaluate_loop api False shape e ops) = Some ((ops ! i)\<lparr>runtime := Some (Finite r)\<rparr>)
   \<and> snd (snd (evaluate_loop api False shape e ops)) = e'"
proof (induction ops arbitrary: i e)
  case Nil
  then show ?case by simp
next
  case (Cons cand ops)
  obtain out e1 where ev: "evaluate api e cand shape = (out, e1)" by (cases "evaluate api e cand shape")
  show ?case
  proof (cases i)
    case 0
    with Cons.prems ev have "out = Finite r" "e1 = e'" by simp_all
    with ev 0 show ?thesis by (simp add: Let_def)
  next
    case (Suc k)
    obtain outs' e2 where ea: "evaluate_all api shape e1 (take (Suc k) ops) = (outs', e2)"
      by (cases "evaluate_all api shape e1 (take (Suc k) ops)")
    from Cons.prems(2) Suc ev ea have o: "out = Infinite" "outs' = replicate k Infinite @ [Finite r]" "e2 = e'"
      by simp_all
    from Cons.prems(1) Suc have k: "k < length ops" by simp
    from Cons.IH [OF k] ea o have ih:
      "fst (evaluate_loop api False shape e1 ops) = Some ((ops ! k)\<lparr>runtime := Some (Finite r)\<rparr>)
       \<and> snd (snd (evaluate_loop api False shape e1 ops)) = e'" by simp
    obtain w l e3 where el: "evaluate_loop api False shape e1 ops = (w, l, e3)"
      by (cases "evaluate_loop api False shape e1 ops")
    show ?thesis using ih ev o(1) Suc el by (simp add: Let_def)
  qed
qed

lemma min_from_scan:
  assumes len: "length outs = length ops"
    and xs: "xs = map (\<lambda>(cand, out). cand\<lparr>runtime := Some out\<rparr>) (zip ops outs)"
  shows "b < n \<Longrightarrow> n \<le> length ops \<Longrightarrow>
     (\<forall>j<n. \<not> rt_less (outs ! j) (outs ! b)) \<Longrightarrow> (\<forall>j<b. rt_less (outs ! b) (outs ! j)) \<Longrightarrow>
     \<exists>i<length ops. min_from (xs ! b) (outs ! b) (drop n xs) = Inr (xs ! i)
        \<and> (\<forall>j<length ops. \<not> rt_less (outs ! j) (outs ! i))
        \<and> (\<forall>j<i. rt_less (outs ! i) (outs ! j))"
proof (induction "length ops - n" arbitrary: b n)
  case 0
  then have "n = length ops" by simp
  with 0 len xs show ?case by (intro exI [of _ b]) simp
next
  case (Suc d)
  from Suc.hyps(2) have n: "n < length ops" by simp
  with len xs have lx: "n < length xs" by simp
  then have dr: "drop n xs = xs ! n # drop (Suc n) xs" by (simp add: Cons_nth_drop_Suc)
  from n len xs have rn: "runtime (xs ! n) = Some (outs ! n)" by simp
  from Suc.hyps(2) have d: "d = length ops - Suc n" by simp
  show ?case
  proof (cases "rt_less (outs ! n) (outs ! b)")
    case True
    have a1: "\<forall>j<Suc n. \<not> rt_less (outs ! j) (outs ! n)"
    proof (intro allI impI)
      fix j assume "j < Suc n"
      then consider "j < n" | "j = n" by linarith
      then show "\<not> rt_less (outs ! j) (outs ! n)"
      proof cases
        case 1
        with Suc.prems(3) have "\<not> rt_less (outs ! j) (outs ! b)" by simp
        with True show ?thesis using rt_less_trans by blast
      next
        case 2
        then show ?thesis by (simp add: rt_less_irrefl)
      qed
    qed
    have a2: "\<forall>j<n. rt_less (outs ! n) (outs ! j)"
      using Suc.prems(3) True rt_less_le_trans by blast
    from Suc.hyps(1) [OF d _ _ a1 a2] n
    have "\<exists>i<length ops. min_from (xs ! n) (outs ! n) (drop (Suc n) xs) = Inr (xs ! i)
        \<and> (\<forall>j<length ops. \<not> rt_less (outs ! j) (outs ! i))
        \<and> (\<forall>j<i. rt_less (outs ! i) (outs ! j))" by simp
    with dr rn True show ?thesis by simp
  next
    case False
    have a1: "\<forall>j<Suc n. \<not> rt_less (outs ! j) (outs ! b)"
      using Suc.prems(3) False less_Suc_eq by auto
    from Suc.prems(1) have bn: "b < Suc n" by simp
    from Suc.hyps(1) [OF d bn _ a1 Suc.prems(4)] n
    have "\<exists>i<length ops. min_from (xs ! b) (outs ! b) (drop (Suc n) xs) = Inr (xs ! i)
        \<and> (\<forall>j<length ops. \<not> rt_less (outs ! j) (outs ! i))
        \<and> (\<forall>j<i. rt_less (outs ! i) (outs ! j))" by simp
    with dr rn False show ?thesis by simp
  qed
qed

lemma min_runtime_first_least:
  assumes len: "length outs = length ops" and ne: "ops \<noteq> []"
  shows "\<exists>i<length ops.
     min_runtime (map (\<lambda>(cand, out). cand\<lparr>runtime := Some out\<rparr>) (zip ops outs))
        = Inr ((ops ! i)\<lparr>runtime := Some (outs ! i)\<rparr>)
     \<and> (\<forall>j<length ops. \<not> rt_less (outs ! j) (outs ! i))
     \<and> (\<forall>j<i. rt_less (outs ! i) (outs ! j))"
proof -
  define xs where "xs = map (\<lambda>(cand, out). cand\<lparr>runtime := Some out\<rparr>) (zip ops outs)"
  from ne len have l0: "0 < length ops" "0 < length xs" by (simp_all add: xs_def)
  then have xs0: "xs = xs ! 0 # drop 1 xs"
    by (metis Cons_nth_drop_Suc One_nat_def drop0)
  from l0 len have r0: "runtime (xs ! 0) = Some (outs ! 0)" by (simp add: xs_def)
  have m: "min_runtime xs = min_from (xs ! 0) (outs ! 0) (drop 1 xs)"
    using xs0 r0 by (metis (no_types, lifting) list.simps(5) min_runtime_def option.simps(5))
  have i0: "\<forall>j<1. \<not> rt_less (outs ! j) (outs ! 0)" by (simp add: rt_less_irrefl)
  from min_from_scan [OF len xs_def, of 0 1] l0 i0
  obtain i where i: "i < length ops" "min_from (xs ! 0) (outs ! 0) (drop 1 xs) = Inr (xs ! i)"
     "\<forall>j<length ops. \<not> rt_less (outs ! j) (outs ! i)" "\<forall>j<i. rt_less (outs ! i) (outs ! j)"
    by auto
  from i(1) len have "xs ! i = (ops ! i)\<lparr>runtime := Some (outs ! i)\<rparr>" by (simp add: xs_def)
  with i m show ?thesis unfolding xs_def by auto
qed

subsection \<open>The test catalog and the scripted engine, evaluated\<close>

lemma check_align_test:
  "check_align ''cutlass_tensorop_h1688gemm_128x64_32x2_tn_align8'' 8 8 8 = Inr True"
  "check_align ''cutlass_tensorop_h1688gemm_128x64_32x2_tn_align1'' 8 8 8 = Inr True"
  "check_align ''cutlass_tensorop_h1688gemm_128x64_32x2_tn_align8'' 65 64 64 = Inr False"
  "check_align ''cutlass_tensorop_h1688gemm_128x64_32x2_tn_align1'' 65 64 64 = Inr True"
  by (simp_all add: check_align_def align_class_def int_of_char_def Let_def)

lemma test_candidate_fields:
  "name (test_candidate 8) = ''cutlass_tensorop_h1688gemm_128x64_32x2_tn_align8''"
  "name (test_candidate 1) = ''cutlass_tensorop_h1688gemm_128x64_32x2_tn_align1''"
  "alignment (test_candidate a) = a"
  by (simp_all add: test_candidate_def test_names gemm_candidate_fields(2))

lemma test_catalog_one:
  "test_generator [test_tile] ''float16'' (enumerate_gemm_operators (test_library [test_tile]))
     = Inr [test_candidate 8, test_candidate 1]"
  by (simp add: test_catalog test_enumerated test_candidate_def)

lemma test_feasible:
  "filter_align [test_candidate 8, test_candidate 1] 8 8 8 = Inr [test_candidate 8, test_candidate 1]"
  "filter_align [test_candidate 8, test_candidate 1] 65 64 64 = Inr [test_candidate 1]"
  "filter_align [] M N K = Inr []"
  by (simp_all add: test_candidate_fields check_align_test)

lemma test_evaluate:
  "evaluate (test_engine table) lg cand shape
     = ((case table (alignment cand) of None \<Rightarrow> Infinite | Some r \<Rightarrow> Finite r),
        lg @ [Evaluate (name cand) shape])"
  by (simp add: test_engine_def)

lemma test_compile_all:
  "compile_all (test_engine table) lg ops parallel = lg @ [Compile_all (map name ops) parallel]"
  by (simp add: test_engine_def)

lemma test_profiler_fields:
  "cache test_profiler = Map.empty" "engine test_profiler = []"
  by (simp_all add: test_profiler_def)

subsection \<open>Selection\<close>

text \<open>
  In the theorems of this subsection \<open>ops\<close> is the list of the feasible candidates,
  in the order of the enumeration: by \<open>filter_align_Inr\<close> the candidates of the
  catalog whose name passes \<^const>\<open>check_align\<close> for the shape. \<open>outs ! j\<close> is the
  runtime that the engine measures for candidate \<open>j\<close>.
\<close>

text \<open>
  Claim C2. For a shape that is not cached, with \<open>profile_all\<close> set and a feasible
  candidate of finite runtime, \<^verbatim>\<open>select_op\<close> compiles the feasible candidates,
  evaluates all of them and returns candidate \<open>i\<close> with its runtime written into it,
  where no candidate has a runtime less than that of \<open>i\<close> and every candidate before
  \<open>i\<close> has a strictly greater one: the minimum, and among equal minima the first in
  the order of the enumeration. That runtime is finite, and the winner is stored in the
  cache under (M, N, K).
\<close>

theorem select_op_profile_all_minimum:
  assumes "cache self (M, N, K) = None"
    and "GENERATOR_FUNC_TABLE lib (sm self) = Some generator"
    and "generator out_dtype (enumerate_gemm_operators lib) = Inr ops0"
    and "filter_align ops0 M N K = Inr ops"
    and "evaluate_all api [M, N, K] (compile_all api (engine self) ops use_multiprocessing) ops
           = (outs, e')"
    and "\<exists>j<length ops. outs ! j \<noteq> Infinite"
  shows "\<exists>i<length ops.
      select_op lib api self M N K out_dtype True use_multiprocessing
        = (Inr ((ops ! i)\<lparr>runtime := Some (outs ! i)\<rparr>),
           self\<lparr>engine := e',
                cache := (cache self)((M, N, K) \<mapsto> (ops ! i)\<lparr>runtime := Some (outs ! i)\<rparr>)\<rparr>)
      \<and> outs ! i \<noteq> Infinite
      \<and> (\<forall>j<length ops. \<not> rt_less (outs ! j) (outs ! i))
      \<and> (\<forall>j<i. rt_less (outs ! i) (outs ! j))"
proof -
  from assms(6) have ne: "ops \<noteq> []" by auto
  have len: "length outs = length ops" using assms(5) by (rule evaluate_all_length)
  have loop: "evaluate_loop api True [M, N, K]
      (compile_all api (engine self) ops use_multiprocessing) ops
      = (None, map (\<lambda>(cand, out). cand\<lparr>runtime := Some out\<rparr>) (zip ops outs), e')"
    using evaluate_loop_complete [OF assms(5), of True] by simp
  from min_runtime_first_least [OF len ne]
  obtain i where i: "i < length ops"
    "min_runtime (map (\<lambda>(cand, out). cand\<lparr>runtime := Some out\<rparr>) (zip ops outs))
        = Inr ((ops ! i)\<lparr>runtime := Some (outs ! i)\<rparr>)"
    "\<forall>j<length ops. \<not> rt_less (outs ! j) (outs ! i)"
    "\<forall>j<i. rt_less (outs ! i) (outs ! j)" by blast
  have fin: "outs ! i \<noteq> Infinite"
    using assms(6) i(3) rt_less_Infinite by metis
  have sel: "select_op lib api self M N K out_dtype True use_multiprocessing
        = (Inr ((ops ! i)\<lparr>runtime := Some (outs ! i)\<rparr>),
           self\<lparr>engine := e',
                cache := (cache self)((M, N, K) \<mapsto> (ops ! i)\<lparr>runtime := Some (outs ! i)\<rparr>)\<rparr>)"
    using assms(1-4) loop i(2) by (simp add: select_op_def)
  show ?thesis using i(1) sel fin i(3) i(4) by blast
qed

theorem select_op_profile_all_minimum_witness:
  "fst (select_op (test_library [test_tile]) (test_engine [8 \<mapsto> 3, 1 \<mapsto> 2]) test_profiler
          8 8 8 ''float16'' True False)
     = Inr ((test_candidate 1)\<lparr>runtime := Some (Finite 2)\<rparr>)
   \<and> fst (select_op (test_library [test_tile]) (test_engine [8 \<mapsto> 2, 1 \<mapsto> 2]) test_profiler
          8 8 8 ''float16'' True False)
     = Inr ((test_candidate 8)\<lparr>runtime := Some (Finite 2)\<rparr>)"
proof -
  let ?ops = "[test_candidate 8, test_candidate 1]"
  let ?log = "[Compile_all (map name ?ops) False,
               Evaluate (name (test_candidate 8)) [8, 8, 8],
               Evaluate (name (test_candidate 1)) [8, 8, 8]]"
  have c: "cache test_profiler (8, 8, 8) = None" by (simp add: test_profiler_fields)
  have g: "GENERATOR_FUNC_TABLE (test_library [test_tile]) (sm test_profiler)
             = Some (test_generator [test_tile])"
    by (simp add: test_profiler_sm test_catalog)
  have e1: "evaluate_all (test_engine [8 \<mapsto> 3, 1 \<mapsto> 2]) [8, 8, 8]
              (compile_all (test_engine [8 \<mapsto> 3, 1 \<mapsto> 2]) (engine test_profiler) ?ops False)
              ?ops
            = ([Finite 3, Finite 2], ?log)"
    by (simp add: test_evaluate test_compile_all test_profiler_fields test_candidate_fields(3))
  have e2: "evaluate_all (test_engine [8 \<mapsto> 2, 1 \<mapsto> 2]) [8, 8, 8]
              (compile_all (test_engine [8 \<mapsto> 2, 1 \<mapsto> 2]) (engine test_profiler) ?ops False)
              ?ops
            = ([Finite 2, Finite 2], ?log)"
    by (simp add: test_evaluate test_compile_all test_profiler_fields test_candidate_fields(3))
  have f1: "\<exists>j<length ?ops. [Finite 3, Finite 2] ! j \<noteq> Infinite"
    by (rule exI [of _ 0]) simp
  have f2: "\<exists>j<length ?ops. [Finite 2, Finite 2] ! j \<noteq> Infinite"
    by (rule exI [of _ 0]) simp
  from select_op_profile_all_minimum [OF c g test_catalog_one test_feasible(1) e1 f1]
  obtain i where i: "i < length ?ops"
    "select_op (test_library [test_tile]) (test_engine [8 \<mapsto> 3, 1 \<mapsto> 2]) test_profiler
          8 8 8 ''float16'' True False
       = (Inr ((?ops ! i)\<lparr>runtime := Some ([Finite 3, Finite 2] ! i)\<rparr>),
          test_profiler\<lparr>engine := ?log,
             cache := (cache test_profiler)((8, 8, 8) \<mapsto>
                (?ops ! i)\<lparr>runtime := Some ([Finite 3, Finite 2] ! i)\<rparr>)\<rparr>)"
    "\<forall>j<length ?ops. \<not> rt_less ([Finite 3, Finite 2] ! j) ([Finite 3, Finite 2] ! i)"
    by blast
  have "i \<noteq> 0"
  proof
    assume z: "i = 0"
    from i(3) [rule_format, of 1]
    have "\<not> rt_less ([Finite 3, Finite 2] ! 1) ([Finite 3, Finite 2] ! i)" by simp
    with z show False by simp
  qed
  with i(1) have "i = 1" by simp
  with i(2) have a: "fst (select_op (test_library [test_tile]) (test_engine [8 \<mapsto> 3, 1 \<mapsto> 2])
          test_profiler 8 8 8 ''float16'' True False)
     = Inr ((test_candidate 1)\<lparr>runtime := Some (Finite 2)\<rparr>)" by simp
  from select_op_profile_all_minimum [OF c g test_catalog_one test_feasible(1) e2 f2]
  obtain k where k: "k < length ?ops"
    "select_op (test_library [test_tile]) (test_engine [8 \<mapsto> 2, 1 \<mapsto> 2]) test_profiler
          8 8 8 ''float16'' True False
       = (Inr ((?ops ! k)\<lparr>runtime := Some ([Finite 2, Finite 2] ! k)\<rparr>),
          test_profiler\<lparr>engine := ?log,
             cache := (cache test_profiler)((8, 8, 8) \<mapsto>
                (?ops ! k)\<lparr>runtime := Some ([Finite 2, Finite 2] ! k)\<rparr>)\<rparr>)"
    "\<forall>j<k. rt_less ([Finite 2, Finite 2] ! k) ([Finite 2, Finite 2] ! j)"
    by blast
  have "k = 0"
  proof (rule ccontr)
    assume "k \<noteq> 0"
    with k(1) have o: "k = 1" by simp
    from k(3) [rule_format, of 0] o
    have "rt_less ([Finite 2, Finite 2] ! k) ([Finite 2, Finite 2] ! 0)" by simp
    with o show False by simp
  qed
  with k(2) have b: "fst (select_op (test_library [test_tile]) (test_engine [8 \<mapsto> 2, 1 \<mapsto> 2])
          test_profiler 8 8 8 ''float16'' True False)
     = Inr ((test_candidate 8)\<lparr>runtime := Some (Finite 2)\<rparr>)" by simp
  show ?thesis using a b by simp
qed

text \<open>
  Claim C3. For a shape that is not cached, with \<open>profile_all\<close> unset, when the
  feasible candidates before position \<open>i\<close> evaluate to the infinite sentinel and
  candidate \<open>i\<close> to a finite runtime, \<^verbatim>\<open>select_op\<close> returns candidate
  \<open>i\<close> with that runtime and stores it in the cache. The engine it leaves is the
  one after the evaluation of the candidates up to \<open>i\<close> and of nothing else: no
  candidate behind \<open>i\<close> is evaluated, and nothing is assumed about their runtimes, so a
  faster one among them changes nothing.
\<close>

theorem select_op_first_finite:
  assumes "cache self (M, N, K) = None"
    and "GENERATOR_FUNC_TABLE lib (sm self) = Some generator"
    and "generator out_dtype (enumerate_gemm_operators lib) = Inr ops0"
    and "filter_align ops0 M N K = Inr ops"
    and "i < length ops"
    and "evaluate_all api [M, N, K] (engine self) (take (Suc i) ops)
           = (replicate i Infinite @ [Finite r], e')"
  shows "select_op lib api self M N K out_dtype False use_multiprocessing
        = (Inr ((ops ! i)\<lparr>runtime := Some (Finite r)\<rparr>),
           self\<lparr>engine := e',
                cache := (cache self)((M, N, K) \<mapsto> (ops ! i)\<lparr>runtime := Some (Finite r)\<rparr>)\<rparr>)"
proof -
  obtain w l e3 where el: "evaluate_loop api False [M, N, K] (engine self) ops = (w, l, e3)"
    by (cases "evaluate_loop api False [M, N, K] (engine self) ops")
  from evaluate_loop_early [OF assms(5) assms(6)] el
  have "w = Some ((ops ! i)\<lparr>runtime := Some (Finite r)\<rparr>)" "e3 = e'" by simp_all
  with el assms(1-4) show ?thesis by (simp add: select_op_def)
qed

theorem select_op_first_finite_witness:
  "select_op (test_library [test_tile]) (test_engine [8 \<mapsto> 3, 1 \<mapsto> 2]) test_profiler
          8 8 8 ''float16'' False False
     = (Inr ((test_candidate 8)\<lparr>runtime := Some (Finite 3)\<rparr>),
        test_profiler\<lparr>engine := [Evaluate ''cutlass_tensorop_h1688gemm_128x64_32x2_tn_align8'' [8, 8, 8]],
          cache := [(8, 8, 8) \<mapsto> (test_candidate 8)\<lparr>runtime := Some (Finite 3)\<rparr>]\<rparr>)
   \<and> fst (select_op (test_library [test_tile]) (test_engine [1 \<mapsto> 2]) test_profiler
          8 8 8 ''float16'' False False)
     = Inr ((test_candidate 1)\<lparr>runtime := Some (Finite 2)\<rparr>)"
proof -
  have c: "cache test_profiler (8, 8, 8) = None" by (simp add: test_profiler_fields)
  have g: "GENERATOR_FUNC_TABLE (test_library [test_tile]) (sm test_profiler)
             = Some (test_generator [test_tile])"
    by (simp add: test_profiler_sm test_catalog)
  have i0: "0 < length [test_candidate 8, test_candidate 1]" by simp
  have i1: "1 < length [test_candidate 8, test_candidate 1]" by simp
  have e0: "evaluate_all (test_engine [8 \<mapsto> 3, 1 \<mapsto> 2]) [8, 8, 8] (engine test_profiler)
              (take (Suc 0) [test_candidate 8, test_candidate 1])
            = (replicate 0 Infinite @ [Finite 3],
               [Evaluate ''cutlass_tensorop_h1688gemm_128x64_32x2_tn_align8'' [8, 8, 8]])"
    by (simp add: test_evaluate test_profiler_fields test_candidate_fields)
  have e1: "evaluate_all (test_engine [1 \<mapsto> 2]) [8, 8, 8] (engine test_profiler)
              (take (Suc 1) [test_candidate 8, test_candidate 1])
            = (replicate 1 Infinite @ [Finite 2],
               [Evaluate ''cutlass_tensorop_h1688gemm_128x64_32x2_tn_align8'' [8, 8, 8],
                Evaluate ''cutlass_tensorop_h1688gemm_128x64_32x2_tn_align1'' [8, 8, 8]])"
    by (simp add: test_evaluate test_profiler_fields test_candidate_fields)
  from select_op_first_finite [OF c g test_catalog_one test_feasible(1) i0 e0, of False]
  have a: "select_op (test_library [test_tile]) (test_engine [8 \<mapsto> 3, 1 \<mapsto> 2]) test_profiler
          8 8 8 ''float16'' False False
     = (Inr ((test_candidate 8)\<lparr>runtime := Some (Finite 3)\<rparr>),
        test_profiler\<lparr>engine := [Evaluate ''cutlass_tensorop_h1688gemm_128x64_32x2_tn_align8'' [8, 8, 8]],
          cache := [(8, 8, 8) \<mapsto> (test_candidate 8)\<lparr>runtime := Some (Finite 3)\<rparr>]\<rparr>)"
    by (simp add: test_profiler_fields)
  from select_op_first_finite [OF c g test_catalog_one test_feasible(1) i1 e1, of False]
  have b: "fst (select_op (test_library [test_tile]) (test_engine [1 \<mapsto> 2]) test_profiler
          8 8 8 ''float16'' False False)
     = Inr ((test_candidate 1)\<lparr>runtime := Some (Finite 2)\<rparr>)" by simp
  show ?thesis using a b by simp
qed

text \<open>
  Claim C1, as the code has it. For a shape that is not cached, in either mode: when
  there is no feasible candidate, \<^verbatim>\<open>select_op\<close> raises (\<^verbatim>\<open>min\<close> of an
  empty list) and the cache stays as it was; when there are feasible candidates and
  every one evaluates to the infinite sentinel, it returns the first feasible candidate
  with the infinite runtime written into it and stores it in the cache under (M, N, K).
\<close>

theorem select_op_all_infinite:
  assumes "cache self (M, N, K) = None"
    and "GENERATOR_FUNC_TABLE lib (sm self) = Some generator"
    and "generator out_dtype (enumerate_gemm_operators lib) = Inr ops0"
    and "filter_align ops0 M N K = Inr ops"
    and "evaluate_all api [M, N, K]
           (if profile_all then compile_all api (engine self) ops use_multiprocessing
            else engine self) ops
           = (replicate (length ops) Infinite, e')"
  shows "select_op lib api self M N K out_dtype profile_all use_multiprocessing
        = (if ops = [] then (Inl ValueError, self\<lparr>engine := e'\<rparr>)
           else (Inr ((hd ops)\<lparr>runtime := Some Infinite\<rparr>),
                 self\<lparr>engine := e',
                      cache := (cache self)((M, N, K) \<mapsto> (hd ops)\<lparr>runtime := Some Infinite\<rparr>)\<rparr>))"
proof -
  let ?e1 = "if profile_all then compile_all api (engine self) ops use_multiprocessing
            else engine self"
  let ?xs = "map (\<lambda>(cand, out). cand\<lparr>runtime := Some out\<rparr>) (zip ops (replicate (length ops) Infinite))"
  have loop: "evaluate_loop api profile_all [M, N, K] ?e1 ops = (None, ?xs, e')"
    using evaluate_loop_complete [OF assms(5)] by simp
  show ?thesis
  proof (cases ops)
    case Nil
    with loop assms(1-4) show ?thesis by (auto simp: select_op_def min_runtime_def)
  next
    case (Cons cand rest)
    have len: "length (replicate (length ops) Infinite) = length ops" by simp
    from Cons have ne: "ops \<noteq> []" by simp
    from min_runtime_first_least [OF len ne]
    obtain i where i: "i < length ops"
      "min_runtime ?xs = Inr ((ops ! i)\<lparr>runtime := Some (replicate (length ops) Infinite ! i)\<rparr>)"
      "\<forall>j<i. rt_less (replicate (length ops) Infinite ! i) (replicate (length ops) Infinite ! j)"
      by blast
    have "i = 0"
    proof (rule ccontr)
      assume "i \<noteq> 0"
      then have "0 < i" by simp
      with i(3) i(1) have "rt_less Infinite Infinite" by auto
      then show False by simp
    qed
    with i(2) ne have m: "min_runtime ?xs = Inr ((hd ops)\<lparr>runtime := Some Infinite\<rparr>)"
      by (simp add: hd_conv_nth)
    show ?thesis using assms(1-4) loop m ne by (simp add: select_op_def)
  qed
qed

theorem select_op_all_infinite_witness:
  "fst (select_op (test_library [test_tile]) (test_engine Map.empty) test_profiler
          8 8 8 ''float16'' False False)
     = Inr ((test_candidate 8)\<lparr>runtime := Some Infinite\<rparr>)
   \<and> cache (snd (select_op (test_library [test_tile]) (test_engine Map.empty) test_profiler
          8 8 8 ''float16'' False False)) (8, 8, 8)
     = Some ((test_candidate 8)\<lparr>runtime := Some Infinite\<rparr>)
   \<and> fst (select_op (test_library []) (test_engine Map.empty) test_profiler
          8 8 8 ''float16'' True False) = Inl ValueError
   \<and> cache (snd (select_op (test_library []) (test_engine Map.empty) test_profiler
          8 8 8 ''float16'' True False)) (8, 8, 8) = None"
proof -
  have c: "cache test_profiler (8, 8, 8) = None" by (simp add: test_profiler_fields)
  have g: "GENERATOR_FUNC_TABLE (test_library tiles) (sm test_profiler)
             = Some (test_generator tiles)" for tiles
    by (simp add: test_profiler_sm test_catalog)
  have cat0: "test_generator [] ''float16'' (enumerate_gemm_operators (test_library [])) = Inr []"
    by (simp add: test_catalog test_enumerated)
  have e1: "evaluate_all (test_engine Map.empty) [8, 8, 8]
       (if False then compile_all (test_engine Map.empty) (engine test_profiler)
            [test_candidate 8, test_candidate 1] False else engine test_profiler)
       [test_candidate 8, test_candidate 1]
     = (replicate (length [test_candidate 8, test_candidate 1]) Infinite,
        [Evaluate (name (test_candidate 8)) [8, 8, 8], Evaluate (name (test_candidate 1)) [8, 8, 8]])"
    by (simp add: test_evaluate test_profiler_fields test_candidate_fields(3))
  have e0: "evaluate_all (test_engine Map.empty) [8, 8, 8]
       (if True then compile_all (test_engine Map.empty) (engine test_profiler) [] False
        else engine test_profiler) []
     = (replicate (length ([] :: kernel list)) Infinite, [Compile_all [] False])"
    by (simp add: test_compile_all test_profiler_fields)
  from select_op_all_infinite [OF c g test_catalog_one test_feasible(1) e1]
  have a: "select_op (test_library [test_tile]) (test_engine Map.empty) test_profiler
          8 8 8 ''float16'' False False
      = (Inr ((test_candidate 8)\<lparr>runtime := Some Infinite\<rparr>),
         test_profiler\<lparr>engine := [Evaluate (name (test_candidate 8)) [8, 8, 8],
                                    Evaluate (name (test_candidate 1)) [8, 8, 8]],
            cache := (cache test_profiler)((8, 8, 8) \<mapsto> (test_candidate 8)\<lparr>runtime := Some Infinite\<rparr>)\<rparr>)"
    by simp
  from select_op_all_infinite [OF c g cat0 test_feasible(3) e0]
  have b: "select_op (test_library []) (test_engine Map.empty) test_profiler
          8 8 8 ''float16'' True False
      = (Inl ValueError, test_profiler\<lparr>engine := [Compile_all [] False]\<rparr>)"
    by simp
  show ?thesis using a b c by simp
qed

text \<open>
  The claim C1 as stated fails: with one tile, the alignments 8 and 1 and an engine that
  measures no candidate, the call for the shape (8, 8, 8) returns the candidate of
  alignment 8 with infinite runtime, and the cache holds it afterwards.
\<close>

theorem select_op_search_exhausted_counterexample:
  "fst (select_op (test_library [test_tile]) (test_engine Map.empty) test_profiler
          8 8 8 ''float16'' True False)
     = Inr ((test_candidate 8)\<lparr>runtime := Some Infinite\<rparr>)
   \<and> cache (snd (select_op (test_library [test_tile]) (test_engine Map.empty) test_profiler
          8 8 8 ''float16'' True False)) (8, 8, 8)
     = Some ((test_candidate 8)\<lparr>runtime := Some Infinite\<rparr>)"
proof -
  have sel: "select_op (test_library [test_tile]) (test_engine Map.empty) test_profiler
          8 8 8 ''float16'' True False
      = (Inr ((test_candidate 8)\<lparr>runtime := Some Infinite\<rparr>),
         test_profiler\<lparr>engine := [Compile_all [name (test_candidate 8), name (test_candidate 1)] False,
             Evaluate (name (test_candidate 8)) [8, 8, 8], Evaluate (name (test_candidate 1)) [8, 8, 8]],
           cache := [(8, 8, 8) \<mapsto> (test_candidate 8)\<lparr>runtime := Some Infinite\<rparr>]\<rparr>)"
    by (simp add: select_op_def test_profiler_fields test_profiler_sm test_catalog(1)
        test_catalog_one test_candidate_fields check_align_test test_compile_all test_evaluate
        min_runtime_def Let_def)
  show ?thesis by (simp add: sel)
qed

subsection \<open>The default kernel, instantiated again\<close>

lemma test_name_ignores_epilogue: "name_ignores_epilogue (test_library tiles)"
  by (simp add: name_ignores_epilogue_def test_library_def test_name_def)

lemma test_init: "init (test_library tiles) 75 [] = Inr test_profiler"
  by (simp add: init_def test_library_def test_profiler_def DEFAULT_KERNELS_def)

text \<open>
  When exactly one candidate of the catalog carries the default name and the operator
  type is in the epilogue table, \<^verbatim>\<open>get_default\<close> returns that candidate with
  \<^verbatim>\<open>opdef\<close> set to the source emitted for the operation built again with the
  epilogue of the caller, and \<^verbatim>\<open>name\<close> set to the name of that operation.
\<close>

lemma get_default_single:
  assumes "GENERATOR_FUNC_TABLE lib (sm self) = Some generator"
    and "generator out_dtype (enumerate_gemm_operators lib) = Inr ops"
    and "DEFAULT_KERNELS (sm self) = Some by_dtype"
    and "by_dtype out_dtype = Some default_kernel_name"
    and "filter (\<lambda>cand. name cand = default_kernel_name) ops = [cand]"
    and "EPILOGUE_MAP lib op_type = Some (epilogue, no_beta_scaling)"
  shows "\<exists>gemm res.
      gemm_operation_with_epilogue lib op_type (tile_description cand) (data_type cand)
          (alignment cand) (swizzle_functor cand) batched = Inr (gemm, no_beta_scaling)
    \<and> get_default lib self op_type out_dtype batched = Inr res
    \<and> res = cand\<lparr>name := procedural_name lib gemm,
                  opdef := Some (emit lib gemm (Some no_beta_scaling) batched)\<rparr>
    \<and> name cand = default_kernel_name
    \<and> epilogue_functor gemm = epilogue
    \<and> gemm_tile gemm = tile_description cand
    \<and> td_alignment (operand_A gemm) = alignment cand
    \<and> swizzling_functor gemm = (if batched then Batched else swizzle_functor cand)
    \<and> tile_description res = tile_description cand
    \<and> alignment res = alignment cand
    \<and> swizzle_functor res = swizzle_functor cand
    \<and> data_type res = data_type cand
    \<and> (name_ignores_epilogue lib
          \<longrightarrow> cand = gemm_candidate lib (data_type cand) (swizzle_functor cand)
                       (tile_description cand) (alignment cand)
          \<longrightarrow> name res = default_kernel_name)"
proof -
  obtain ea eb ec ee where dt: "data_type cand = (ea, eb, ec, ee)"
    by (cases "data_type cand") auto
  let ?gemm = "\<lparr>arch = minimum_compute_capability (tile_description cand),
                 gemm_tile = tile_description cand,
                 operand_A = \<lparr>element = ea, layout = RowMajor, td_alignment = alignment cand\<rparr>,
                 operand_B = \<lparr>element = eb, layout = ColumnMajor, td_alignment = alignment cand\<rparr>,
                 operand_C = \<lparr>element = ec, layout = RowMajor, td_alignment = alignment cand\<rparr>,
                 element_epilogue = ee,
                 epilogue_functor = epilogue,
                 swizzling_functor = (if batched then Batched else swizzle_functor cand)\<rparr>"
  let ?res = "cand\<lparr>name := procedural_name lib ?gemm,
                  opdef := Some (emit lib ?gemm (Some no_beta_scaling) batched)\<rparr>"
  have g: "gemm_operation_with_epilogue lib op_type (tile_description cand) (data_type cand)
          (alignment cand) (swizzle_functor cand) batched = Inr (?gemm, no_beta_scaling)"
    using assms(6) dt by (simp add: gemm_operation_with_epilogue_def Let_def)
  have d: "get_default lib self op_type out_dtype batched = Inr ?res"
    using assms(1-5) g
    by (simp add: get_default_def create_gemm_operator_with_epilogue_def Let_def)
  have "cand \<in> set (filter (\<lambda>cand. name cand = default_kernel_name) ops)"
    using assms(5) by simp
  then have n: "name cand = default_kernel_name" by simp
  have nm: "name ?res = default_kernel_name"
    if i: "name_ignores_epilogue lib"
      and c: "cand = gemm_candidate lib (data_type cand) (swizzle_functor cand)
                       (tile_description cand) (alignment cand)"
  proof -
    let ?op = "op (gemm_candidate lib (data_type cand) (swizzle_functor cand)
                       (tile_description cand) (alignment cand))"
    have o: "?gemm = ?op\<lparr>epilogue_functor := epilogue,
               swizzling_functor := (if batched then Batched else swizzle_functor cand)\<rparr>"
      using dt by (simp add: gemm_candidate_def Let_def)
    have "procedural_name lib ?gemm = procedural_name lib ?op"
      using i unfolding o name_ignores_epilogue_def by blast
    also have "\<dots> = name (gemm_candidate lib (data_type cand) (swizzle_functor cand)
                       (tile_description cand) (alignment cand))"
      by (simp add: gemm_candidate_fields(7))
    also have "\<dots> = name cand" using c by simp
    finally show ?thesis using n by simp
  qed
  show ?thesis
    apply (rule exI [of _ ?gemm])
    apply (rule exI [of _ ?res])
    using g d n nm by simp
qed

lemma filter_distinct_name:
  "distinct (map f xs) \<Longrightarrow> y \<in> set xs \<Longrightarrow> filter (\<lambda>x. f x = f y) xs = [y]"
proof (induction xs)
  case Nil
  then show ?case by simp
next
  case (Cons x xs)
  show ?case
  proof (cases "x = y")
    case True
    from Cons.prems(1) True have "f y \<notin> f ` set xs" by simp
    then have "\<forall>z\<in>set xs. f z \<noteq> f y" by (metis imageI)
    then have "filter (\<lambda>x. f x = f y) xs = []" by (simp add: filter_empty_conv)
    with True show ?thesis by simp
  next
    case False
    with Cons.prems have y: "y \<in> set xs" and d: "distinct (map f xs)" by simp_all
    from Cons.prems(1) have "f x \<notin> f ` set xs" by simp
    with y have "f x \<noteq> f y" by (metis imageI)
    with Cons.IH [OF d y] show ?thesis by simp
  qed
qed

lemma test_enumerated_catalog:
  "enumerated_catalog (test_library [test_tile]) [test_candidate 8, test_candidate 1]"
  by (simp add: enumerated_catalog_def built_by_enumerator_def test_candidate_fields(1,2))
     (simp add: test_candidate_def gemm_candidate_fields(1-4))

text \<open>
  Claim C6. For a supported architecture and an output type of the default table, when
  the default name occurs in the enumerated catalog, \<^verbatim>\<open>get_default\<close> returns
  the candidate of that name, instantiated again with the epilogue of the caller: its
  name is the entry of the default table, \<^verbatim>\<open>opdef\<close> is the source emitted for
  the operation built with that epilogue, and the tile description, the alignment and
  the swizzle functor are those of the catalog candidate. The catalog is one of
  candidates built by the enumerator and identified by their names, names do not
  depend on the epilogue, and the operator type is one of the epilogue table.
\<close>

theorem get_default_named:
  assumes "GENERATOR_FUNC_TABLE lib (sm self) = Some generator"
    and "generator out_dtype (enumerate_gemm_operators lib) = Inr ops"
    and "DEFAULT_KERNELS (sm self) = Some by_dtype"
    and "by_dtype out_dtype = Some default_kernel_name"
    and "enumerated_catalog lib ops"
    and "default_kernel_name \<in> set (map name ops)"
    and "name_ignores_epilogue lib"
    and "EPILOGUE_MAP lib op_type = Some (epilogue, no_beta_scaling)"
  shows "\<exists>cand gemm res.
      cand \<in> set ops \<and> name cand = default_kernel_name
    \<and> gemm_operation_with_epilogue lib op_type (tile_description cand) (data_type cand)
          (alignment cand) (swizzle_functor cand) batched = Inr (gemm, no_beta_scaling)
    \<and> epilogue_functor gemm = epilogue
    \<and> get_default lib self op_type out_dtype batched = Inr res
    \<and> res = cand\<lparr>name := default_kernel_name,
                  opdef := Some (emit lib gemm (Some no_beta_scaling) batched)\<rparr>
    \<and> name res = default_kernel_name
    \<and> tile_description res = tile_description cand
    \<and> alignment res = alignment cand
    \<and> swizzle_functor res = swizzle_functor cand"
proof -
  from assms(6) obtain cand where c: "cand \<in> set ops" "name cand = default_kernel_name"
    by auto
  from assms(5) have d: "distinct (map name ops)" and b: "built_by_enumerator lib cand"
    using c(1) by (simp_all add: enumerated_catalog_def list_all_iff)
  from filter_distinct_name [OF d c(1)] c(2)
  have f: "filter (\<lambda>cand. name cand = default_kernel_name) ops = [cand]" by simp
  from b have bc: "cand = gemm_candidate lib (data_type cand) (swizzle_functor cand)
                       (tile_description cand) (alignment cand)"
    by (simp add: built_by_enumerator_def)
  from get_default_single [OF assms(1-4) f assms(8), of batched]
  obtain gemm res where r:
    "gemm_operation_with_epilogue lib op_type (tile_description cand) (data_type cand)
          (alignment cand) (swizzle_functor cand) batched = Inr (gemm, no_beta_scaling)"
    "get_default lib self op_type out_dtype batched = Inr res"
    "res = cand\<lparr>name := procedural_name lib gemm,
                  opdef := Some (emit lib gemm (Some no_beta_scaling) batched)\<rparr>"
    "epilogue_functor gemm = epilogue"
    "name_ignores_epilogue lib
          \<longrightarrow> cand = gemm_candidate lib (data_type cand) (swizzle_functor cand)
                       (tile_description cand) (alignment cand)
          \<longrightarrow> name res = default_kernel_name"
    by blast
  from r(5) assms(7) bc have n: "name res = default_kernel_name" by blast
  with r(3) have p: "procedural_name lib gemm = default_kernel_name" by simp
  from r(3) p have e: "res = cand\<lparr>name := default_kernel_name,
                  opdef := Some (emit lib gemm (Some no_beta_scaling) batched)\<rparr>" by simp
  have u: "tile_description res = tile_description cand" "alignment res = alignment cand"
    "swizzle_functor res = swizzle_functor cand" using e by simp_all
  show ?thesis using c r(1) r(4) r(2) e n u by blast
qed

theorem get_default_named_witness:
  "\<exists>res. get_default (test_library [test_tile]) test_profiler ''cutlass.dense_bias_relu''
            ''float16'' True = Inr res
     \<and> name res = ''cutlass_tensorop_h1688gemm_128x64_32x2_tn_align1''
     \<and> tile_description res = test_tile \<and> alignment res = 1
     \<and> swizzle_functor res = Identity8 \<and> opdef res \<noteq> None"
proof -
  let ?lib = "test_library [test_tile]"
  let ?dn = "''cutlass_tensorop_h1688gemm_128x64_32x2_tn_align1''"
  have m: "?dn \<in> set (map name [test_candidate 8, test_candidate 1])"
    by (simp add: test_candidate_fields(1,2))
  have e: "EPILOGUE_MAP ?lib ''cutlass.dense_bias_relu''
             = Some (OtherEpilogue ''LinearCombinationRelu'', True)"
    by (simp add: test_library_def)
  from get_default_named [of ?lib test_profiler, unfolded test_profiler_sm,
      OF test_catalog(1) test_catalog_one default_75 default_75_float16
         test_enumerated_catalog m test_name_ignores_epilogue e, of True]
  obtain cand gemm res where r: "cand \<in> set [test_candidate 8, test_candidate 1]"
    "name cand = ?dn"
    "get_default ?lib test_profiler ''cutlass.dense_bias_relu'' ''float16'' True = Inr res"
    "res = cand\<lparr>name := ?dn, opdef := Some (emit ?lib gemm (Some True) True)\<rparr>"
    "name res = ?dn" "tile_description res = tile_description cand"
    "alignment res = alignment cand"
    "swizzle_functor res = swizzle_functor cand"
    by blast
  from r(4) have o: "opdef res \<noteq> None" by simp
  from r(1) r(2) have c: "cand = test_candidate 1"
    by (auto simp: test_candidate_fields(1,2))
  have t: "tile_description (test_candidate 1) = test_tile"
    "alignment (test_candidate 1) = 1" "swizzle_functor (test_candidate 1) = Identity8"
    by (simp_all add: test_candidate_def gemm_candidate_fields(1-3))
  from r(3) r(5) r(6) r(7) r(8) o c t show ?thesis by simp
qed

subsection \<open>The feasibility filter against the specification\<close>

text \<open>
  Every match of the pattern ends in a character of the class. On a name where no match
  ends in \<^verbatim>\<open>|\<close> the matches are the alignment tokens of the specification, and
  \<^const>\<open>check_align\<close> does what the specification says: the assertion fails unless
  there is exactly one token, else the result is whether its alignment divides M, N
  and K.
\<close>

lemma last_take_6: "5 < length xs \<Longrightarrow> last (take 6 xs) = xs ! 5"
proof -
  assume a: "5 < length xs"
  have "(6::nat) = Suc 5" by simp
  then have "take 6 xs = take 5 xs @ [xs ! 5]"
    using take_Suc_conv_app_nth [OF a] by simp
  then show ?thesis by simp
qed

lemma findall_align_last:
  "m \<in> set (findall_align s) \<Longrightarrow> align_class (last m)"
proof (induction s rule: findall_align.induct)
  case 1
  then show ?case by simp
next
  case (2 c cs)
  let ?found = "take 5 (c # cs) = ''align'' \<and> 5 < length (c # cs) \<and> align_class ((c # cs) ! 5)"
  show ?case
  proof (cases ?found)
    case True
    then have f: "findall_align (c # cs) = take 6 (c # cs) # findall_align (drop 5 cs)"
      unfolding findall_align.simps(2) [of c cs] by (rule if_P)
    from True have l: "last (take 6 (c # cs)) = (c # cs) ! 5"
      using last_take_6 [of "c # cs"] by blast
    from "2.prems" f consider "m = take 6 (c # cs)" | "m \<in> set (findall_align (drop 5 cs))"
      by auto
    then show ?thesis
    proof cases
      case 1
      from True have "align_class ((c # cs) ! 5)" by blast
      with l 1 show ?thesis by (simp only:)
    next
      case 2
      from "2.IH"(1) [OF True 2] show ?thesis .
    qed
  next
    case False
    then have f: "findall_align (c # cs) = findall_align cs"
      unfolding findall_align.simps(2) [of c cs] by (rule if_not_P)
    from "2.prems" f have "m \<in> set (findall_align cs)" by simp
    from "2.IH"(2) [OF False this] show ?thesis .
  qed
qed

lemma spec_tokens_of_matches:
  "list_all (\<lambda>m. last m \<noteq> CHR ''|'') (findall_align s) \<Longrightarrow>
   spec_alignment_tokens s = map (\<lambda>m. int (of_char (last m)) - 48) (findall_align s)"
proof (induction s rule: findall_align.induct)
  case 1
  then show ?case by simp
next
  case (2 c cs)
  let ?found = "take 5 (c # cs) = ''align'' \<and> 5 < length (c # cs) \<and> align_class ((c # cs) ! 5)"
  show ?case
  proof (cases ?found)
    case True
    then have f: "findall_align (c # cs) = take 6 (c # cs) # findall_align (drop 5 cs)"
      unfolding findall_align.simps(2) [of c cs] by (rule if_P)
    from True have l: "last (take 6 (c # cs)) = (c # cs) ! 5"
      using last_take_6 [of "c # cs"] by blast
    from "2.prems" f have p: "last (take 6 (c # cs)) \<noteq> CHR ''|''"
      and r: "list_all (\<lambda>m. last m \<noteq> CHR ''|'') (findall_align (drop 5 cs))"
      by simp_all
    from True l p have d: "spec_alignment_digit ((c # cs) ! 5)"
      by (auto simp: align_class_def spec_alignment_digit_def)
    from True d have "take 5 (c # cs) = ''align'' \<and> 5 < length (c # cs)
         \<and> spec_alignment_digit ((c # cs) ! 5)" by blast
    then have s: "spec_alignment_tokens (c # cs)
        = (int (of_char ((c # cs) ! 5)) - 48) # spec_alignment_tokens (drop 5 cs)"
      unfolding spec_alignment_tokens.simps(2) [of c cs] by (rule if_P)
    from "2.IH"(1) [OF True r] s f l show ?thesis by simp
  next
    case False
    then have f: "findall_align (c # cs) = findall_align cs"
      unfolding findall_align.simps(2) [of c cs] by (rule if_not_P)
    from False have n: "\<not> (take 5 (c # cs) = ''align'' \<and> 5 < length (c # cs)
         \<and> spec_alignment_digit ((c # cs) ! 5))"
      by (auto simp: align_class_def spec_alignment_digit_def)
    then have s: "spec_alignment_tokens (c # cs) = spec_alignment_tokens cs"
      unfolding spec_alignment_tokens.simps(2) [of c cs] by (rule if_not_P)
    from "2.prems" f have r: "list_all (\<lambda>m. last m \<noteq> CHR ''|'') (findall_align cs)"
      by simp
    from "2.IH"(2) [OF False r] s f show ?thesis by simp
  qed
qed

lemma int_of_char_alignment:
  "align_class c \<Longrightarrow> c \<noteq> CHR ''|'' \<Longrightarrow>
   int_of_char c = Inr (int (of_char c) - 48) \<and> int (of_char c) - 48 \<noteq> 0"
  by (auto simp: align_class_def int_of_char_def)

lemma check_align_meets_spec:
  assumes "list_all (\<lambda>m. last m \<noteq> CHR ''|'') (findall_align op_name)"
  shows "check_align op_name M N K = spec_is_feasible op_name M N K"
proof (cases "findall_align op_name")
  case Nil
  with spec_tokens_of_matches [OF assms] show ?thesis
    by (simp add: check_align_def spec_is_feasible_def)
next
  case (Cons m ms)
  note c = Cons
  show ?thesis
  proof (cases ms)
    case Nil
    from c have "m \<in> set (findall_align op_name)" by simp
    then have a: "align_class (last m)" using findall_align_last by blast
    from assms c have p: "last m \<noteq> CHR ''|''" by simp
    from spec_tokens_of_matches [OF assms] c Nil
    have t: "spec_alignment_tokens op_name = [int (of_char (last m)) - 48]" by simp
    from int_of_char_alignment [OF a p] c Nil t show ?thesis
      by (simp add: check_align_def spec_is_feasible_def Let_def dvd_eq_mod_eq_0)
  next
    case (Cons m' ms')
    with c spec_tokens_of_matches [OF assms] show ?thesis
      by (simp add: check_align_def spec_is_feasible_def)
  qed
qed

lemma findall_align_chars:
  "m \<in> set (findall_align s) \<Longrightarrow> m \<noteq> [] \<and> set m \<subseteq> set s"
proof (induction s rule: findall_align.induct)
  case 1
  then show ?case by simp
next
  case (2 c cs)
  let ?found = "take 5 (c # cs) = ''align'' \<and> 5 < length (c # cs) \<and> align_class ((c # cs) ! 5)"
  show ?case
  proof (cases ?found)
    case True
    then have f: "findall_align (c # cs) = take 6 (c # cs) # findall_align (drop 5 cs)"
      unfolding findall_align.simps(2) [of c cs] by (rule if_P)
    from "2.prems" f consider "m = take 6 (c # cs)" | "m \<in> set (findall_align (drop 5 cs))"
      by auto
    then show ?thesis
    proof cases
      case 1
      have "set (take 6 (c # cs)) \<subseteq> set (c # cs)" by (rule set_take_subset)
      moreover have "take 6 (c # cs) \<noteq> []" by simp
      ultimately show ?thesis using 1 by simp
    next
      case 2
      from "2.IH"(1) [OF True 2] have "m \<noteq> []" "set m \<subseteq> set (drop 5 cs)" by simp_all
      moreover have "set (drop 5 cs) \<subseteq> set cs" by (rule set_drop_subset)
      ultimately show ?thesis by auto
    qed
  next
    case False
    then have f: "findall_align (c # cs) = findall_align cs"
      unfolding findall_align.simps(2) [of c cs] by (rule if_not_P)
    from "2.prems" f have "m \<in> set (findall_align cs)" by simp
    from "2.IH"(2) [OF False this] show ?thesis by auto
  qed
qed

lemma no_pipe_matches:
  assumes "CHR ''|'' \<notin> set op_name"
  shows "list_all (\<lambda>m. last m \<noteq> CHR ''|'') (findall_align op_name)"
proof -
  have "last m \<noteq> CHR ''|''" if "m \<in> set (findall_align op_name)" for m
  proof -
    from findall_align_chars [OF that] have "last m \<in> set op_name"
      using last_in_set by blast
    with assms show ?thesis by metis
  qed
  then show ?thesis by (simp add: list_all_iff)
qed

lemma spec_is_feasible_error:
  "spec_is_feasible op_name M N K = Inl e \<longleftrightarrow>
     e = AssertionError \<and> length (spec_alignment_tokens op_name) \<noteq> 1"
  by (auto simp: spec_is_feasible_def split: list.splits)

lemma test_tokens:
  "spec_alignment_tokens ''cutlass_tensorop_h1688gemm_128x64_32x2_tn_align8'' = [8]"
  "spec_alignment_tokens ''cutlass_tensorop_h1688gemm_128x64_32x2_tn_align1'' = [1]"
  "spec_alignment_tokens ''cutlass_tensorop_h1688gemm_128x64_32x2_tn'' = []"
  "spec_alignment_tokens ''cutlass_align2_tensorop_align4'' = [2, 4]"
  by (simp_all add: spec_alignment_digit_def)

text \<open>
  Claim C4. For a name with exactly one alignment token, of alignment \<open>a\<close>,
  \<^verbatim>\<open>check_align\<close> returns whether \<open>a\<close> divides M, N and K: always true for
  \<open>a = 1\<close>, and false for \<open>a = 8\<close> when one of the three is one less than a
  multiple of 8. The names are those that reach \<^verbatim>\<open>check_align\<close>, the names of
  the catalog, which have no \<^verbatim>\<open>|\<close> in them.
\<close>

theorem check_align_divisible:
  assumes "CHR ''|'' \<notin> set op_name"
    and "spec_alignment_tokens op_name = [a]"
  shows "check_align op_name M N K = Inr (a dvd M \<and> a dvd N \<and> a dvd K)
     \<and> (a = 1 \<longrightarrow> check_align op_name M N K = Inr True)
     \<and> (a = 8 \<and> (M mod 8 = 7 \<or> N mod 8 = 7 \<or> K mod 8 = 7)
           \<longrightarrow> check_align op_name M N K = Inr False)"
proof -
  have c: "check_align op_name M N K = Inr (a dvd M \<and> a dvd N \<and> a dvd K)"
    using check_align_meets_spec [OF no_pipe_matches [OF assms(1)], of M N K] assms(2)
    by (simp add: spec_is_feasible_def)
  have e: "\<not> (8 dvd M \<and> 8 dvd N \<and> 8 dvd K)"
    if "M mod 8 = 7 \<or> N mod 8 = 7 \<or> K mod 8 = 7"
    using that by presburger
  show ?thesis using c e by auto
qed

theorem check_align_divisible_witness:
  "check_align ''cutlass_tensorop_h1688gemm_128x64_32x2_tn_align8'' 64 64 64 = Inr True
   \<and> check_align ''cutlass_tensorop_h1688gemm_128x64_32x2_tn_align8'' 64 63 64 = Inr False
   \<and> check_align ''cutlass_tensorop_h1688gemm_128x64_32x2_tn_align1'' 65 63 7 = Inr True"
proof -
  have p8: "CHR ''|'' \<notin> set ''cutlass_tensorop_h1688gemm_128x64_32x2_tn_align8''" by simp
  have p1: "CHR ''|'' \<notin> set ''cutlass_tensorop_h1688gemm_128x64_32x2_tn_align1''" by simp
  from check_align_divisible [OF p8 test_tokens(1), of 64 64 64]
  have a: "check_align ''cutlass_tensorop_h1688gemm_128x64_32x2_tn_align8'' 64 64 64 = Inr True"
    by simp
  from check_align_divisible [OF p8 test_tokens(1), of 64 63 64]
  have b: "check_align ''cutlass_tensorop_h1688gemm_128x64_32x2_tn_align8'' 64 63 64 = Inr False"
    by simp
  from check_align_divisible [OF p1 test_tokens(2), of 65 63 7]
  have c: "check_align ''cutlass_tensorop_h1688gemm_128x64_32x2_tn_align1'' 65 63 7 = Inr True"
    by simp
  show ?thesis using a b c by simp
qed

text \<open>
  Claim C7. On the names that reach it, which have no \<^verbatim>\<open>|\<close> in them,
  \<^verbatim>\<open>check_align\<close> fails its assertion exactly when the name carries no
  alignment token or more than one, and raises nothing else. A name of the naming
  convention carries exactly one token, so for it the call returns and the error
  branch is not taken.
\<close>

theorem check_align_assertion:
  assumes "CHR ''|'' \<notin> set op_name"
  shows "(check_align op_name M N K = Inl AssertionError
            \<longleftrightarrow> length (spec_alignment_tokens op_name) \<noteq> 1)
     \<and> (\<forall>e. check_align op_name M N K = Inl e \<longrightarrow> e = AssertionError)
     \<and> (length (spec_alignment_tokens op_name) = 1
            \<longrightarrow> (\<exists>feasible. check_align op_name M N K = Inr feasible))"
proof -
  have c: "check_align op_name M N K = spec_is_feasible op_name M N K"
    by (rule check_align_meets_spec [OF no_pipe_matches [OF assms]])
  have r: "\<exists>feasible. spec_is_feasible op_name M N K = Inr feasible"
    if "length (spec_alignment_tokens op_name) = 1"
  proof (cases "spec_is_feasible op_name M N K")
    case (Inl e)
    with that show ?thesis by (simp add: spec_is_feasible_error)
  next
    case (Inr b)
    then show ?thesis by blast
  qed
  show ?thesis using c r by (auto simp: spec_is_feasible_error)
qed

theorem check_align_assertion_witness:
  "check_align ''cutlass_tensorop_h1688gemm_128x64_32x2_tn'' 8 8 8 = Inl AssertionError
   \<and> check_align ''cutlass_align2_tensorop_align4'' 8 8 8 = Inl AssertionError
   \<and> (\<exists>feasible. check_align ''cutlass_tensorop_h1688gemm_128x64_32x2_tn_align8'' 8 8 8
          = Inr feasible)"
proof -
  have p0: "CHR ''|'' \<notin> set ''cutlass_tensorop_h1688gemm_128x64_32x2_tn''" by simp
  have p2: "CHR ''|'' \<notin> set ''cutlass_align2_tensorop_align4''" by simp
  have p8: "CHR ''|'' \<notin> set ''cutlass_tensorop_h1688gemm_128x64_32x2_tn_align8''" by simp
  from check_align_assertion [OF p0, of 8 8 8] test_tokens(3)
  have a: "check_align ''cutlass_tensorop_h1688gemm_128x64_32x2_tn'' 8 8 8 = Inl AssertionError"
    by simp
  from check_align_assertion [OF p2, of 8 8 8] test_tokens(4)
  have b: "check_align ''cutlass_align2_tensorop_align4'' 8 8 8 = Inl AssertionError"
    by simp
  from check_align_assertion [OF p8, of 8 8 8] test_tokens(1)
  have c: "\<exists>feasible. check_align ''cutlass_tensorop_h1688gemm_128x64_32x2_tn_align8'' 8 8 8
          = Inr feasible"
    by simp
  show ?thesis using a b c by simp
qed

text \<open>
  Outside those names the pattern also matches \<^verbatim>\<open>align|\<close>, since
  \<^verbatim>\<open>|\<close> is a member of its character class: such a match counts for the
  assertion and has no digit to convert.
\<close>

lemma check_align_pipe:
  "findall_align ''cutlass_align1_align|'' = [''align1'', ''align|'']
   \<and> check_align ''cutlass_align1_align|'' 3 5 7 = Inl AssertionError
   \<and> check_align ''cutlass_align|'' 8 8 8 = Inl ValueError"
  by (simp add: check_align_def align_class_def int_of_char_def)

end
